theory Spec2Isabelle
  imports Main
begin

section \<open>The paid-query service of the x402 MCP server\<close>

text \<open>
  This theory embeds \<^verbatim>\<open>src/services/serenService.ts\<close>: the method
  \<^verbatim>\<open>SerenService.executeQuery\<close> with its helpers \<^verbatim>\<open>getWalletProvider\<close> and
  \<^verbatim>\<open>buildPaymentPayload\<close>.

  Conventions of the embedding.
  \<^item> The SQL statement, which the service trims and puts in upper case, is the list of
    its UTF-16 code units. \<^verbatim>\<open>trim\<close> removes the white space and the line terminators
    of ECMAScript. \<^verbatim>\<open>toUpperCase\<close> is computed on the code units of ASCII; what it
    makes of a run of code units outside ASCII is left to the platform (a function of the
    environment, about which nothing is assumed). The strings that the service only
    copies or tests for emptiness are of type \<open>string\<close>.
  \<^item> A JavaScript number that the service computes with is a \<open>number\<close>: an integer
    (held by a double), or any other value. The sum of two integers is rounded as a double
    rounds it; a sum with another value, and the text of a number that is no integer
    up to \<open>2^53\<close> in magnitude, are left to the platform.
  \<^item> An optional property (\<^verbatim>\<open>x?: T\<close>) is an \<open>option\<close>; \<^verbatim>\<open>a ?? b\<close> and
    \<^verbatim>\<open>a?.b\<close> are case distinctions on it.
  \<^item> A \<^verbatim>\<open>throw\<close> (a rejected promise) is the left summand of a result; the
    \<^verbatim>\<open>try\<close>/\<^verbatim>\<open>catch\<close> of \<^verbatim>\<open>executeQuery\<close> is a case distinction on it.
  \<^item> The gateway client, the wallet and the EIP-712 module are not part of the
    service: they are an environment, a record of functions that answer the calls.
    Every call is written to a trace, so that "is never invoked" is a statement about
    the trace. An answer may depend on the calls made before it.
\<close>

subsection \<open>Strings of code units\<close>

type_synonym code_unit = int

text \<open>The code units of a literal of ASCII characters.\<close>

definition codeUnits :: "string \<Rightarrow> code_unit list" where
  "codeUnits s = map of_char s"

text \<open>The white space that \<^verbatim>\<open>String.prototype.trim\<close> removes: TAB, LF, VT, FF, CR,
  SPACE, U+00A0, U+1680, U+2000 to U+200A, U+2028, U+2029, U+202F, U+205F, U+3000 and
  U+FEFF (the WhiteSpace and LineTerminator productions of ECMAScript).\<close>

definition isWhiteSpace :: "code_unit \<Rightarrow> bool" where
  "isWhiteSpace c \<longleftrightarrow>
     c \<in> {9, 10, 11, 12, 13, 32, 160, 5760, 8232, 8233, 8239, 8287, 12288, 65279}
     \<or> (8192 \<le> c \<and> c \<le> 8202)"

definition trim :: "code_unit list \<Rightarrow> code_unit list" where
  "trim s = rev (dropWhile isWhiteSpace (rev (dropWhile isWhiteSpace s)))"

definition isAscii :: "code_unit \<Rightarrow> bool" where
  "isAscii c \<longleftrightarrow> 0 \<le> c \<and> c < 128"

text \<open>The upper case of a code unit of ASCII: the letters a to z move to A to Z.\<close>

definition asciiUpper :: "code_unit \<Rightarrow> code_unit" where
  "asciiUpper c = (if 97 \<le> c \<and> c \<le> 122 then c - 32 else c)"

definition startsWith :: "'a list \<Rightarrow> 'a list \<Rightarrow> bool" where
  "startsWith s p \<longleftrightarrow> take (length p) s = p"

subsection \<open>Numbers\<close>

text \<open>A \<^verbatim>\<open>number\<close>: \<open>Integer i\<close> is the double whose value is the integer \<open>i\<close>;
  the other values of the type are a fraction (numerator and denominator), \<^verbatim>\<open>NaN\<close>
  and the infinities. Every integer up to \<open>2^53\<close> in magnitude is the value of a
  double; beyond, only the integers that \<open>round53\<close> leaves as they are.
  \<open>Undefined\<close> is what a property declared \<^verbatim>\<open>number\<close> reads when the object
  received has no such property (the declaration is not checked at run time).\<close>

datatype number = Integer int | Fraction int int | NaN | PosInfinity | NegInfinity | Undefined

text \<open>The number of binary digits of a positive integer.\<close>

function bitLength :: "int \<Rightarrow> nat" where
  "bitLength n = (if n \<le> 0 then 0 else Suc (bitLength (n div 2)))"
  by pat_completeness auto
termination
  by (relation "measure nat") auto

declare bitLength.simps [simp del]

text \<open>An integer rounded to the nearest double, ties to the even significand: at most 53
  binary digits are kept. Beyond the largest double the result is an infinity.\<close>

definition round53 :: "int \<Rightarrow> int" where
  "round53 x =
     (let a = \<bar>x\<bar>;
          q = 2 ^ (bitLength a - 53);
          m = a div q;
          r = a mod q;
          m' = (if q < 2 * r \<or> (2 * r = q \<and> odd m) then m + 1 else m)
      in sgn x * (m' * q))"

definition roundInteger :: "int \<Rightarrow> number" where
  "roundInteger x =
     (let r = round53 x in
      if 2 ^ 1024 \<le> r then PosInfinity
      else if r \<le> - (2 ^ 1024) then NegInfinity
      else Integer r)"

text \<open>The decimal digits of a natural number, as \<^verbatim>\<open>Number.prototype.toString\<close> writes
  them.\<close>

definition digit_char :: "int \<Rightarrow> char" where
  "digit_char d = char_of (48 + d)"

function digits :: "int \<Rightarrow> string" where
  "digits n = (if n < 10 then [digit_char n] else digits (n div 10) @ [digit_char (n mod 10)])"
  by pat_completeness auto
termination
  by (relation "measure nat") auto

declare digits.simps [simp del]

text \<open>What a decimal string is, and the integer it denotes: the reading of "transmitted
  as decimal strings" (section 6 of the specification).\<close>

definition is_digit :: "char \<Rightarrow> bool" where
  "is_digit c \<longleftrightarrow> 48 \<le> (of_char c :: int) \<and> (of_char c :: int) \<le> 57"

definition is_digits :: "string \<Rightarrow> bool" where
  "is_digits s \<longleftrightarrow> s \<noteq> [] \<and> list_all is_digit s"

fun is_decimal :: "string \<Rightarrow> bool" where
  "is_decimal [] = False"
| "is_decimal (c # cs) = (if c = CHR ''-'' then is_digits cs else is_digits (c # cs))"

definition digits_value :: "string \<Rightarrow> int" where
  "digits_value s = foldl (\<lambda>acc c. 10 * acc + (of_char c - 48)) 0 s"

fun decimal_value :: "string \<Rightarrow> int" where
  "decimal_value [] = 0"
| "decimal_value (c # cs) =
     (if c = CHR ''-'' then - digits_value cs else digits_value (c # cs))"

subsection \<open>The data of the protocol\<close>

text \<open>The input and the result of \<^verbatim>\<open>executeQuery\<close> (\<^verbatim>\<open>ExecuteQueryParams\<close>,
  \<^verbatim>\<open>ExecuteQueryResult\<close>). A row is \<^verbatim>\<open>unknown\<close> to the service; here it is
  its JSON text.\<close>

type_synonym row = string

record execute_query_params =
  sql :: "code_unit list"
  providerId :: string

record execute_query_result =
  success :: bool
  rows :: "row list option"
  rowCount :: "int option"
  estimatedCost :: "string option"
  actualCost :: "string option"
  executionTime :: "int option"
  txHash :: "string option"
  error :: "string option"

text \<open>Modelled from the spec: the type declarations of \<^verbatim>\<open>src/gateway/types\<close>
  (\<^verbatim>\<open>PaymentRequirement\<close>, \<^verbatim>\<open>QueryResult\<close>, \<^verbatim>\<open>PaymentPayload\<close>, the response of
  \<^verbatim>\<open>queryDatabase\<close>) are not among the sources. The records below have the fields
  that section 3 of the specification lists and that the service and its tests read and
  write.\<close>

record eip712_config =
  cfg_name :: "string option"
  cfg_version :: "string option"
  cfg_chainId :: "int option"
  cfg_verifyingContract :: "string option"

record requirement_extra =
  eip712 :: "eip712_config option"

record payment_requirement =
  scheme :: string
  network :: string
  maxAmountRequired :: string
  asset :: string
  payTo :: string
  resource :: string
  description :: string
  mimeType :: string
  maxTimeoutSeconds :: number
  extra :: "requirement_extra option"

record payment_requirements_response =
  pr_x402Version :: int
  accepts :: "payment_requirement list"

record settlement_record =
  payer :: string
  transaction :: string
  settlement_network :: string

record query_result =
  qr_rows :: "row list"
  qr_rowCount :: int
  qr_estimatedCost :: string
  qr_actualCost :: string
  qr_executionTime :: int
  settlement :: "settlement_record option"

record authorization =
  auth_from :: string
  auth_to :: string
  auth_value :: string
  auth_validAfter :: string
  auth_validBefore :: string
  auth_nonce :: string

record signed_authorization =
  signature :: string
  authorization :: authorization

record payment_payload =
  x402Version :: int
  pp_scheme :: string
  pp_network :: string
  payload :: signed_authorization

record gateway_response =
  status :: int
  data :: "query_result option"
  paymentRequired :: "payment_requirements_response option"
  paymentResponse :: "string option"

record query_request =
  publisherId :: string
  agentWallet :: string
  req_sql :: "code_unit list"

text \<open>Modelled from the spec: the module \<^verbatim>\<open>src/signing/eip712\<close> is not among the
  sources. The arguments of \<^verbatim>\<open>buildDomain\<close> and \<^verbatim>\<open>buildAuthorizationMessage\<close> are
  the object literals of the call sites; a domain and a message have the fields of the
  specification's sections 3 and 4.2. What the three builders compute is left to the
  environment.\<close>

record domain_args =
  da_chainId :: int
  da_verifyingContract :: string
  da_name :: "string option"
  da_version :: "string option"

record eip712_domain =
  dom_name :: string
  dom_version :: string
  dom_chainId :: int
  dom_verifyingContract :: string

record authorization_args =
  aa_from :: string
  aa_to :: string
  aa_value :: string
  aa_validAfter :: number
  aa_validBefore :: number

record authorization_message =
  msg_from :: string
  msg_to :: string
  msg_value :: int
  msg_validAfter :: int
  msg_validBefore :: int
  nonce :: string

record typed_data =
  td_domain :: eip712_domain
  td_message :: authorization_message

subsection \<open>Exceptions, calls and the trace\<close>

text \<open>What a \<^verbatim>\<open>catch\<close> can tell apart: a \<^verbatim>\<open>UserRejectedError\<close>, any other
  \<^verbatim>\<open>Error\<close> with its message, and a thrown value that is no \<^verbatim>\<open>Error\<close>.\<close>

datatype thrown = UserRejectedError string | Error string | NonError

datatype event =
    WalletConnect "string option"
  | WalletIsConnected
  | WalletGetAddress
  | QueryDatabase query_request "payment_payload option"
  | DecodePaymentResponse string
  | BuildDomain domain_args
  | BuildAuthorizationMessage authorization_args
  | BuildTypedData eip712_domain authorization_message
  | SignTypedData eip712_domain authorization_message

text \<open>The environment of one execution. \<open>dateNow\<close> is what \<^verbatim>\<open>Date.now()\<close>
  returns: an integer of milliseconds, at most 8.64e15 in magnitude (the time values of
  ECMAScript), on which the division by 1000 and \<^verbatim>\<open>Math.floor\<close> are exact. The next
  three fields are the platform where this theory does not compute it: the upper case
  of a run of code units outside ASCII, a sum in which an operand is no integer, the text
  of a number that is no integer up to \<open>2^53\<close> in magnitude. The first argument of a collaborator
  is the trace so far.\<close>

record env =
  dateNow :: int
  upperCaseOf :: "code_unit list \<Rightarrow> code_unit list"
  numberAdd :: "number \<Rightarrow> number \<Rightarrow> number"
  numberToString :: "number \<Rightarrow> string"
  walletConnect :: "event list \<Rightarrow> string option \<Rightarrow> thrown + unit"
  isConnected :: "event list \<Rightarrow> thrown + bool"
  getAddress :: "event list \<Rightarrow> thrown + string"
  signTypedData :: "event list \<Rightarrow> eip712_domain \<Rightarrow> authorization_message \<Rightarrow> thrown + string"
  queryDatabase :: "event list \<Rightarrow> query_request \<Rightarrow> payment_payload option \<Rightarrow> thrown + gateway_response"
  decodePaymentResponse :: "event list \<Rightarrow> string \<Rightarrow> thrown + string option"
  buildDomain :: "event list \<Rightarrow> domain_args \<Rightarrow> thrown + eip712_domain"
  buildAuthorizationMessage :: "event list \<Rightarrow> authorization_args \<Rightarrow> thrown + authorization_message"
  buildTypedData :: "event list \<Rightarrow> eip712_domain \<Rightarrow> authorization_message \<Rightarrow> thrown + typed_data"

text \<open>The state an execution changes: the cached wallet provider of the service
  (\<^verbatim>\<open>this.walletProvider\<close>, set or \<^verbatim>\<open>null\<close>) and the trace, oldest call first.\<close>

record state =
  walletProvider :: bool
  trace :: "event list"

type_synonym 'a js = "state \<Rightarrow> (thrown + 'a) \<times> state"

definition return :: "'a \<Rightarrow> 'a js" where
  "return x s = (Inr x, s)"

definition bind :: "'a js \<Rightarrow> ('a \<Rightarrow> 'b js) \<Rightarrow> 'b js" where
  "bind m k s = (case m s of (Inl e, s') \<Rightarrow> (Inl e, s') | (Inr x, s') \<Rightarrow> k x s')"

definition call :: "event \<Rightarrow> (event list \<Rightarrow> thrown + 'a) \<Rightarrow> 'a js" where
  "call ev f s = (f (trace s), s\<lparr>trace := trace s @ [ev]\<rparr>)"

subsection \<open>The built-in operations\<close>

text \<open>\<^verbatim>\<open>String.prototype.toUpperCase\<close>. The mapping works code point by code point, and a
  code unit of ASCII is a code point of its own: the result is the concatenation of the
  upper case of the code units of ASCII and of what the platform makes of each maximal run
  of other code units.\<close>

function toUpperCase :: "env \<Rightarrow> code_unit list \<Rightarrow> code_unit list" where
  "toUpperCase E [] = []"
| "toUpperCase E (c # cs) =
     (if isAscii c then asciiUpper c # toUpperCase E cs
      else upperCaseOf E (c # takeWhile (\<lambda>u. \<not> isAscii u) cs)
           @ toUpperCase E (dropWhile (\<lambda>u. \<not> isAscii u) cs))"
  by pat_completeness auto
termination
  by (relation "measure (\<lambda>(E, s). length s)")
     (auto simp: length_dropWhile_le less_Suc_eq_le)

text \<open>The sum of two numbers (\<^verbatim>\<open>a + b\<close>).\<close>

fun jsAdd :: "env \<Rightarrow> number \<Rightarrow> number \<Rightarrow> number" where
  "jsAdd E (Integer a) (Integer b) = roundInteger (a + b)"
| "jsAdd E x y = numberAdd E x y"

text \<open>\<^verbatim>\<open>Number.prototype.toString\<close>: an integer up to \<open>2^53\<close> in magnitude is written
  with its decimal digits, after a minus sign when it is negative. Beyond \<open>2^53\<close> the
  digits are the fewest that read back as the same double (\<open>2^60\<close> is written
  \<^verbatim>\<open>1152921504606847000\<close>), and from \<open>10^21\<close> on the text has an exponent: these
  texts are the platform's.\<close>

definition toString :: "env \<Rightarrow> number \<Rightarrow> string" where
  "toString E x =
     (case x of
        Integer i \<Rightarrow>
          if \<bar>i\<bar> \<le> 2 ^ 53
          then (if i < 0 then CHR ''-'' # digits (- i) else digits i)
          else numberToString E x
      | _ \<Rightarrow> numberToString E x)"

subsection \<open>The service\<close>

text \<open>An error result: \<^verbatim>\<open>{ success: false, error: msg }\<close>.\<close>

definition failure :: "string \<Rightarrow> execute_query_result" where
  "failure msg =
     \<lparr>success = False, rows = None, rowCount = None, estimatedCost = None,
      actualCost = None, executionTime = None, txHash = None, error = Some msg\<rparr>"

text \<open>A success result made of the fields of a \<^verbatim>\<open>QueryResult\<close> and a transaction
  hash (lines 106 to 113 and 156 to 164).\<close>

definition succeeded :: "query_result \<Rightarrow> string option \<Rightarrow> execute_query_result" where
  "succeeded d tx =
     \<lparr>success = True, rows = Some (qr_rows d), rowCount = Some (qr_rowCount d),
      estimatedCost = Some (qr_estimatedCost d), actualCost = Some (qr_actualCost d),
      executionTime = Some (qr_executionTime d), txHash = tx, error = None\<rparr>"

text \<open>Lines 69 to 81: the checks before the \<^verbatim>\<open>try\<close> block. \<open>Some r\<close> is the early
  \<^verbatim>\<open>return r\<close>; \<open>None\<close> lets the execution go on. An empty string is the only falsy
  \<^verbatim>\<open>string\<close>.\<close>

definition validateInput :: "env \<Rightarrow> execute_query_params \<Rightarrow> execute_query_result option" where
  "validateInput E params =
     (if providerId params = [] then Some (failure ''providerId is required'')
      else if sql params = [] then Some (failure ''sql is required'')
      else let trimmedSql = toUpperCase E (trim (sql params)) in
        if \<not> startsWith trimmedSql (codeUnits ''SELECT'')
        then Some (failure ''Only SELECT queries are allowed'')
        else None)"

text \<open>\<^verbatim>\<open>getWalletProvider\<close> (lines 51 to 60): the cached provider, or a new
  \<^verbatim>\<open>PrivateKeyWalletProvider\<close> connected with the private key and then cached.\<close>

definition getWalletProvider :: "env \<Rightarrow> string \<Rightarrow> unit js" where
  "getWalletProvider E privateKey s =
     (if walletProvider s then return () s
      else bind (call (WalletConnect (Some privateKey)) (\<lambda>h. walletConnect E h (Some privateKey)))
             (\<lambda>_ s'. return () (s'\<lparr>walletProvider := True\<rparr>)) s)"

text \<open>Lines 84 to 93: the wallet, connected if it was not, and its address.\<close>

definition connectedAddress :: "env \<Rightarrow> string \<Rightarrow> string js" where
  "connectedAddress E privateKey =
     bind (getWalletProvider E privateKey) (\<lambda>_.
     bind (call WalletIsConnected (isConnected E)) (\<lambda>connected.
     bind (if \<not> connected then call (WalletConnect None) (\<lambda>h. walletConnect E h None)
           else return ()) (\<lambda>_.
     call WalletGetAddress (getAddress E))))"

text \<open>Line 263: \<^verbatim>\<open>requirement.extra?.eip712\<close>.\<close>

definition eip712Config :: "payment_requirement \<Rightarrow> eip712_config option" where
  "eip712Config requirement = Option.bind (extra requirement) eip712"

text \<open>Lines 264 to 269: the argument of \<^verbatim>\<open>buildDomain\<close>. \<^verbatim>\<open>eip712Config?.f\<close> is
  \<open>Option.bind\<close>, \<^verbatim>\<open>?? v\<close> is the case distinction with \<open>v\<close> for \<open>None\<close>.\<close>

definition domainArgs :: "payment_requirement \<Rightarrow> domain_args" where
  "domainArgs requirement =
     \<lparr>da_chainId =
        (case Option.bind (eip712Config requirement) cfg_chainId of
           None \<Rightarrow> 8453 | Some n \<Rightarrow> n),
      da_verifyingContract =
        (case Option.bind (eip712Config requirement) cfg_verifyingContract of
           None \<Rightarrow> asset requirement | Some a \<Rightarrow> a),
      da_name = Option.bind (eip712Config requirement) cfg_name,
      da_version = Option.bind (eip712Config requirement) cfg_version\<rparr>"

text \<open>Line 272: \<^verbatim>\<open>Math.floor(Date.now() / 1000)\<close>.\<close>

definition currentSeconds :: "env \<Rightarrow> int" where
  "currentSeconds E = dateNow E div 1000"

text \<open>Lines 273 to 283: the validity window and the argument of
  \<^verbatim>\<open>buildAuthorizationMessage\<close>. Both bounds are the results of an operation on
  numbers: \<^verbatim>\<open>now - 60\<close> on two integers, \<^verbatim>\<open>now + requirement.maxTimeoutSeconds\<close> on
  an integer and whatever number the requirement carries.\<close>

definition authorizationArgs :: "env \<Rightarrow> payment_requirement \<Rightarrow> string \<Rightarrow> authorization_args" where
  "authorizationArgs E requirement fromAddress =
     (let now = currentSeconds E;
          validAfter = roundInteger (now - 60);
          validBefore = jsAdd E (Integer now) (maxTimeoutSeconds requirement) in
      \<lparr>aa_from = fromAddress, aa_to = payTo requirement,
       aa_value = maxAmountRequired requirement,
       aa_validAfter = validAfter, aa_validBefore = validBefore\<rparr>)"

text \<open>Lines 262 to 286 of \<^verbatim>\<open>buildPaymentPayload\<close>: the domain, the validity window,
  the message and the typed data, before anything is signed.\<close>

definition prepareTypedData ::
  "env \<Rightarrow> payment_requirement \<Rightarrow> string \<Rightarrow> (authorization_message \<times> typed_data) js" where
  "prepareTypedData E requirement fromAddress =
     bind (call (BuildDomain (domainArgs requirement))
             (\<lambda>h. buildDomain E h (domainArgs requirement))) (\<lambda>domain.
     let args = authorizationArgs E requirement fromAddress in
     bind (call (BuildAuthorizationMessage args)
             (\<lambda>h. buildAuthorizationMessage E h args)) (\<lambda>message.
     bind (call (BuildTypedData domain message)
             (\<lambda>h. buildTypedData E h domain message)) (\<lambda>typedData.
     return (message, typedData))))"

text \<open>Lines 289 to 304: the wire payload. The two bounds of the window are written with
  \<^verbatim>\<open>toString\<close>, the amount is the string of the requirement.\<close>

definition wirePayload ::
  "env \<Rightarrow> payment_requirement \<Rightarrow> string \<Rightarrow> authorization_message \<Rightarrow> string \<Rightarrow> payment_payload" where
  "wirePayload E requirement fromAddress message sig =
     (let validAfter = aa_validAfter (authorizationArgs E requirement fromAddress);
          validBefore = aa_validBefore (authorizationArgs E requirement fromAddress) in
      \<lparr>x402Version = 1,
       pp_scheme = scheme requirement,
       pp_network = network requirement,
       payload =
         \<lparr>signature = sig,
          authorization =
            \<lparr>auth_from = fromAddress,
             auth_to = payTo requirement,
             auth_value = maxAmountRequired requirement,
             auth_validAfter = toString E validAfter,
             auth_validBefore = toString E validBefore,
             auth_nonce = nonce message\<rparr>\<rparr>\<rparr>)"

text \<open>\<^verbatim>\<open>buildPaymentPayload\<close> (lines 257 to 305): prepare, sign (line 287), return the
  payload.\<close>

definition buildPaymentPayload :: "env \<Rightarrow> payment_requirement \<Rightarrow> string \<Rightarrow> payment_payload js" where
  "buildPaymentPayload E requirement fromAddress =
     bind (prepareTypedData E requirement fromAddress) (\<lambda>(message, typedData).
     bind (call (SignTypedData (td_domain typedData) (td_message typedData))
             (\<lambda>h. signTypedData E h (td_domain typedData) (td_message typedData))) (\<lambda>signature.
     return (wirePayload E requirement fromAddress message signature)))"

text \<open>Lines 145 to 154: the transaction hash, from the settlement record when it has a
  non-empty one, else from the decoded payment response when there is one.\<close>

definition fromPaymentResponse :: "env \<Rightarrow> gateway_response \<Rightarrow> string option js" where
  "fromPaymentResponse E paidResult =
     (case paymentResponse paidResult of
        None \<Rightarrow> return None
      | Some r \<Rightarrow>
          if r = [] then return None
          else call (DecodePaymentResponse r) (\<lambda>h. decodePaymentResponse E h r))"

definition extractTxHash :: "env \<Rightarrow> gateway_response \<Rightarrow> query_result \<Rightarrow> string option js" where
  "extractTxHash E paidResult d =
     (case settlement d of
        None \<Rightarrow> fromPaymentResponse E paidResult
      | Some st \<Rightarrow>
          if transaction st \<noteq> [] then return (Some (transaction st))
          else fromPaymentResponse E paidResult)"

text \<open>Lines 102 to 116: the answer to an initial response that asks for no payment.\<close>

definition withoutPayment :: "gateway_response \<Rightarrow> execute_query_result" where
  "withoutPayment initialResult =
     (case data initialResult of
        Some d \<Rightarrow> succeeded d None
      | None \<Rightarrow> failure ''Unexpected response from gateway'')"

text \<open>Lines 124 to 164: build and sign the payment, repeat the request with it, read the
  result.\<close>

definition payAndRetry ::
  "env \<Rightarrow> query_request \<Rightarrow> payment_requirement \<Rightarrow> execute_query_result js" where
  "payAndRetry E request paymentRequirement =
     bind (buildPaymentPayload E paymentRequirement (agentWallet request)) (\<lambda>paymentPayload.
     bind (call (QueryDatabase request (Some paymentPayload))
             (\<lambda>h. queryDatabase E h request (Some paymentPayload))) (\<lambda>paidResult.
     case data paidResult of
       None \<Rightarrow> return (failure ''No data returned from gateway'')
     | Some d \<Rightarrow> bind (extractTxHash E paidResult d) (\<lambda>tx. return (succeeded d tx))))"

text \<open>Lines 102 to 129: what follows the initial response. In the last case
  \<^verbatim>\<open>accepts[0]\<close> is \<^verbatim>\<open>undefined\<close> on the empty list.\<close>

definition afterInitial ::
  "env \<Rightarrow> query_request \<Rightarrow> gateway_response \<Rightarrow> execute_query_result js" where
  "afterInitial E request initialResult =
     (if status initialResult \<noteq> 402 \<or> paymentRequired initialResult = None
      then return (withoutPayment initialResult)
      else case paymentRequired initialResult of
          None \<Rightarrow> return (withoutPayment initialResult)
        | Some required \<Rightarrow>
            (case accepts required of
               [] \<Rightarrow> return (failure ''No payment method available'')
             | paymentRequirement # _ \<Rightarrow> payAndRetry E request paymentRequirement))"

text \<open>Lines 84 to 100: the wallet's address and the initial request, sent without a
  payment.\<close>

definition initialRequest ::
  "env \<Rightarrow> string \<Rightarrow> execute_query_params \<Rightarrow> (query_request \<times> gateway_response) js" where
  "initialRequest E privateKey params =
     bind (connectedAddress E privateKey) (\<lambda>address.
     let request =
       \<lparr>publisherId = providerId params, agentWallet = address, req_sql = sql params\<rparr> in
     bind (call (QueryDatabase request None) (\<lambda>h. queryDatabase E h request None))
       (\<lambda>initialResult. return (request, initialResult)))"

text \<open>Lines 83 to 164: the body of the \<^verbatim>\<open>try\<close> block.\<close>

definition tryBlock :: "env \<Rightarrow> string \<Rightarrow> execute_query_params \<Rightarrow> execute_query_result js" where
  "tryBlock E privateKey params =
     bind (initialRequest E privateKey params)
       (\<lambda>(request, initialResult). afterInitial E request initialResult)"

text \<open>Lines 165 to 173: the \<^verbatim>\<open>catch\<close> block.\<close>

fun catchBlock :: "thrown \<Rightarrow> execute_query_result" where
  "catchBlock (UserRejectedError _) = failure ''User rejected the payment request''"
| "catchBlock (Error message) = failure message"
| "catchBlock NonError = failure ''Unknown error occurred''"

text \<open>\<^verbatim>\<open>executeQuery\<close> (lines 68 to 174): the result and the state it leaves.\<close>

definition executeQuery ::
  "env \<Rightarrow> string \<Rightarrow> execute_query_params \<Rightarrow> state \<Rightarrow> execute_query_result \<times> state" where
  "executeQuery E privateKey params s =
     (case validateInput E params of
        Some r \<Rightarrow> (r, s)
      | None \<Rightarrow>
          (case tryBlock E privateKey params s of
             (Inl e, s') \<Rightarrow> (catchBlock e, s')
           | (Inr r, s') \<Rightarrow> (r, s')))"

subsection \<open>Reading a trace\<close>

text \<open>The calls of \<^verbatim>\<open>queryDatabase\<close> in a trace, and whether the signer was asked.\<close>

fun isQueryDatabase :: "event \<Rightarrow> bool" where
  "isQueryDatabase (QueryDatabase _ _) = True"
| "isQueryDatabase _ = False"

fun isSignTypedData :: "event \<Rightarrow> bool" where
  "isSignTypedData (SignTypedData _ _) = True"
| "isSignTypedData _ = False"

fun isBuild :: "event \<Rightarrow> bool" where
  "isBuild (BuildDomain _) = True"
| "isBuild (BuildAuthorizationMessage _) = True"
| "isBuild (BuildTypedData _ _) = True"
| "isBuild _ = False"

definition gatewayCalls :: "event list \<Rightarrow> event list" where
  "gatewayCalls tr = filter isQueryDatabase tr"

fun isWallet :: "event \<Rightarrow> bool" where
  "isWallet (WalletConnect _) = True"
| "isWallet WalletIsConnected = True"
| "isWallet WalletGetAddress = True"
| "isWallet _ = False"

fun isDecode :: "event \<Rightarrow> bool" where
  "isDecode (DecodePaymentResponse _) = True"
| "isDecode _ = False"

text \<open>The events of building and signing an authorization.\<close>

definition isSigning :: "event \<Rightarrow> bool" where
  "isSigning e \<longleftrightarrow> isBuild e \<or> isSignTypedData e"

subsection \<open>The mocks of the unit tests\<close>

text \<open>The payment requirement, the wallet and the gateway of
  \<^verbatim>\<open>tests/unit/queryDatabase.test.ts\<close>: a wallet that is connected and signs (or
  answers \<open>signed\<close>), a gateway that answers \<open>initial\<close> to a request without a payment
  and \<open>paid\<close> to one with a payment, builders that copy their arguments. Of the platform
  the examples below reach two values only: the texts of the doubles next to
  \<open>10^21 + 1700000000\<close> and to \<open>2^53 + 1700000001\<close>.\<close>

definition requirement0 :: payment_requirement where
  "requirement0 =
     \<lparr>scheme = ''exact'', network = ''base-mainnet'', maxAmountRequired = ''1000000'',
      asset = ''0xusdc'', payTo = ''0xgateway'', resource = ''/api/query'',
      description = ''Query'', mimeType = ''application/json'',
      maxTimeoutSeconds = Integer 300, extra = None\<rparr>"

definition agent0 :: string where
  "agent0 = ''0x1234567890123456789012345678901234567890''"

fun integerOf :: "number \<Rightarrow> int" where
  "integerOf (Integer i) = i"
| "integerOf _ = 0"

definition mockEnv ::
  "(thrown + gateway_response) \<Rightarrow> (thrown + gateway_response) \<Rightarrow> (thrown + string) \<Rightarrow> env" where
  "mockEnv initial paid signed =
     \<lparr>dateNow = 1700000000123,
      upperCaseOf = (\<lambda>run. run),
      numberAdd = (\<lambda>_ _. NaN),
      numberToString =
        (\<lambda>x. if x = Integer 1000000000001700003840 then ''1.0000000000017e+21''
             else if x = Integer 9007200954740992 then ''9007200954740992''
             else ''NaN''),
      walletConnect = (\<lambda>_ _. Inr ()),
      isConnected = (\<lambda>_. Inr True),
      getAddress = (\<lambda>_. Inr agent0),
      signTypedData = (\<lambda>_ _ _. signed),
      queryDatabase = (\<lambda>_ _ p. case p of None \<Rightarrow> initial | Some _ \<Rightarrow> paid),
      decodePaymentResponse = (\<lambda>_ _. Inr (Some ''0xtx123'')),
      buildDomain = (\<lambda>_ a. Inr \<lparr>dom_name = ''USD Coin'', dom_version = ''2'',
         dom_chainId = da_chainId a, dom_verifyingContract = da_verifyingContract a\<rparr>),
      buildAuthorizationMessage = (\<lambda>_ a. Inr \<lparr>msg_from = aa_from a, msg_to = aa_to a,
         msg_value = decimal_value (aa_value a), msg_validAfter = integerOf (aa_validAfter a),
         msg_validBefore = integerOf (aa_validBefore a), nonce = ''0x01''\<rparr>),
      buildTypedData = (\<lambda>_ d m. Inr \<lparr>td_domain = d, td_message = m\<rparr>)\<rparr>"

definition idle :: state where
  "idle = \<lparr>walletProvider = False, trace = []\<rparr>"

definition challenge :: "payment_requirement list \<Rightarrow> gateway_response" where
  "challenge ms = \<lparr>status = 402, data = None,
     paymentRequired = Some \<lparr>pr_x402Version = 1, accepts = ms\<rparr>, paymentResponse = None\<rparr>"

definition answer :: "int \<Rightarrow> query_result option \<Rightarrow> gateway_response" where
  "answer st d = \<lparr>status = st, data = d, paymentRequired = None, paymentResponse = None\<rparr>"

definition result0 :: query_result where
  "result0 = \<lparr>qr_rows = [''{count: 42}''], qr_rowCount = 1, qr_estimatedCost = ''0.025'',
     qr_actualCost = ''0.020'', qr_executionTime = 100,
     settlement = Some \<lparr>payer = agent0, transaction = ''0xtx456'', settlement_network = ''base-mainnet''\<rparr>\<rparr>"

definition happyEnv :: env where
  "happyEnv = mockEnv (Inr (challenge [requirement0])) (Inr (answer 200 (Some result0))) (Inr ''0xabab'')"

definition payload0 :: payment_payload where
  "payload0 =
     \<lparr>x402Version = 1, pp_scheme = ''exact'', pp_network = ''base-mainnet'',
      payload = \<lparr>signature = ''0xabab'',
        authorization = \<lparr>auth_from = agent0, auth_to = ''0xgateway'', auth_value = ''1000000'',
          auth_validAfter = ''1699999940'', auth_validBefore = ''1700000300'',
          auth_nonce = ''0x01''\<rparr>\<rparr>\<rparr>"

text \<open>The call of the test "should handle 402 response and retry with payment", and what the
  mocks make of it: the request sent, the state once the initial request is made, the
  domain, the message and the typed data built.\<close>

definition params0 :: execute_query_params where
  "params0 =
     \<lparr>sql = codeUnits ''SELECT COUNT(*) FROM orders'', providerId = ''publisher-uuid''\<rparr>"

definition request0 :: query_request where
  "request0 =
     \<lparr>publisherId = ''publisher-uuid'', agentWallet = agent0,
      req_sql = codeUnits ''SELECT COUNT(*) FROM orders''\<rparr>"

definition asked0 :: state where
  "asked0 =
     \<lparr>walletProvider = True,
      trace = [WalletConnect (Some ''key''), WalletIsConnected, WalletGetAddress,
               QueryDatabase request0 None]\<rparr>"

definition domain0 :: eip712_domain where
  "domain0 = \<lparr>dom_name = ''USD Coin'', dom_version = ''2'', dom_chainId = 8453,
     dom_verifyingContract = ''0xusdc''\<rparr>"

definition message0 :: authorization_message where
  "message0 = \<lparr>msg_from = agent0, msg_to = ''0xgateway'', msg_value = 1000000,
     msg_validAfter = 1699999940, msg_validBefore = 1700000300, nonce = ''0x01''\<rparr>"

definition typedData0 :: typed_data where
  "typedData0 = \<lparr>td_domain = domain0, td_message = message0\<rparr>"

text \<open>Gateways and wallets that leave the happy path: no accepted method, a wallet that
  declines, a gateway that asks for no payment (with a result, and without one).\<close>

definition emptyEnv :: env where
  "emptyEnv = mockEnv (Inr (challenge [])) (Inr (answer 200 (Some result0))) (Inr ''0xabab'')"

definition rejectingEnv :: env where
  "rejectingEnv =
     mockEnv (Inr (challenge [requirement0])) (Inr (answer 200 (Some result0)))
       (Inl (UserRejectedError ''declined''))"

definition freeEnv :: env where
  "freeEnv = mockEnv (Inr (answer 200 (Some result0))) (Inr (answer 200 (Some result0))) (Inr ''0xabab'')"

definition bodylessEnv :: env where
  "bodylessEnv = mockEnv (Inr (answer 200 None)) (Inr (answer 200 (Some result0))) (Inr ''0xabab'')"


definition selected0 :: execute_query_params where
  "selected0 = \<lparr>sql = codeUnits ''selected 1'', providerId = ''publisher-uuid''\<rparr>"

definition delete0 :: execute_query_params where
  "delete0 = \<lparr>sql = codeUnits ''DELETE FROM users'', providerId = ''test-id''\<rparr>"

definition twiceChallenged :: gateway_response where
  "twiceChallenged = (challenge [requirement0])\<lparr>data := Some result0\<rparr>"

definition walletReady0 :: state where
  "walletReady0 =
     \<lparr>walletProvider = True,
      trace = [WalletConnect (Some ''key''), WalletIsConnected, WalletGetAddress]\<rparr>"

definition retryChallengedEnv :: env where
  "retryChallengedEnv =
     mockEnv (Inr (challenge [requirement0])) (Inr (challenge [requirement0])) (Inr ''0xabab'')"

definition retryChallengedWithDataEnv :: env where
  "retryChallengedWithDataEnv =
     mockEnv (Inr (challenge [requirement0])) (Inr twiceChallenged) (Inr ''0xabab'')"

definition retryFailedEnv :: env where
  "retryFailedEnv =
     mockEnv (Inr (challenge [requirement0])) (Inr (answer 500 None)) (Inr ''0xabab'')"



definition requirement21 :: payment_requirement where
  "requirement21 = requirement0\<lparr>maxTimeoutSeconds := Integer 1000000000000000000000\<rparr>"

subsection \<open>Statements that read SELECT\<close>

text \<open>Six code units that read SELECT: each is the letter of ASCII, in upper or in lower
  case (the lower case is 32 above the upper case). A statement that begins with the
  long s (U+017F), and a platform that knows its upper case, the letter S. And a statement
  with white space around it, of ASCII and beyond.\<close>

definition readsSelect :: "code_unit list \<Rightarrow> bool" where
  "readsSelect pre \<longleftrightarrow> list_all2 (\<lambda>c u. c = u \<or> c = u + 32) pre [83, 69, 76, 69, 67, 84]"

definition longS0 :: execute_query_params where
  "longS0 = \<lparr>sql = 383 # codeUnits ''elect 1'', providerId = ''publisher-uuid''\<rparr>"

definition unicodeEnv :: env where
  "unicodeEnv = happyEnv\<lparr>upperCaseOf := (\<lambda>run. if run = [383] then [83] else run)\<rparr>"

definition padded0 :: execute_query_params where
  "padded0 =
     \<lparr>sql = [160, 9, 65279] @ codeUnits ''sElEcT 1'' @ [10, 8232],
      providerId = ''publisher-uuid''\<rparr>"

subsection \<open>The first word of a statement\<close>

text \<open>Claim C6 speaks of statements that are "syntactically a read-only SELECT". Whatever
  the grammar, a statement is a SELECT only if its first word, the letters, digits and
  underscores that follow the leading white space, is the keyword SELECT. This reading is
  used to show that validation lets through statements that are no SELECT.\<close>

definition isWordChar :: "code_unit \<Rightarrow> bool" where
  "isWordChar c \<longleftrightarrow>
     (65 \<le> c \<and> c \<le> 90) \<or> (97 \<le> c \<and> c \<le> 122) \<or> (48 \<le> c \<and> c \<le> 57) \<or> c = 95"

definition firstWord :: "code_unit list \<Rightarrow> code_unit list" where
  "firstWord s = map asciiUpper (takeWhile isWordChar (dropWhile isWhiteSpace s))"

subsection \<open>The specification's resolution of the domain parameters\<close>


section \<open>Properties\<close>

subsection \<open>Decimal strings\<close>

lemma of_char_digit_char: "0 \<le> d \<Longrightarrow> d < 10 \<Longrightarrow> (of_char (digit_char d) :: int) = 48 + d"
  by (simp add: digit_char_def of_char_of)

lemma is_digit_digit_char: "0 \<le> d \<Longrightarrow> d < 10 \<Longrightarrow> is_digit (digit_char d)"
  by (simp add: is_digit_def of_char_digit_char)

lemma digit_char_not_minus: "0 \<le> d \<Longrightarrow> d < 10 \<Longrightarrow> digit_char d \<noteq> CHR ''-''"
proof
  assume d: "0 \<le> d" "d < 10" and eq: "digit_char d = CHR ''-''"
  from eq have "(of_char (digit_char d) :: int) = of_char CHR ''-''" by simp
  with d show False by (simp add: of_char_digit_char)
qed

lemma digits_not_Nil: "digits n \<noteq> []"
  by (induction n rule: digits.induct) (subst digits.simps, simp)

lemma list_all_digits: "0 \<le> n \<Longrightarrow> list_all is_digit (digits n)"
proof (induction n rule: digits.induct)
  case (1 n)
  show ?case
  proof (cases "n < 10")
    case True
    with "1.prems" show ?thesis by (subst digits.simps) (simp add: is_digit_digit_char)
  next
    case False
    then have "list_all is_digit (digits (n div 10))" using "1.IH" "1.prems" by simp
    moreover have "is_digit (digit_char (n mod 10))" by (simp add: is_digit_digit_char)
    ultimately show ?thesis using False by (subst digits.simps) simp
  qed
qed

lemma is_digits_digits: "0 \<le> n \<Longrightarrow> is_digits (digits n)"
  by (simp add: is_digits_def digits_not_Nil list_all_digits)

lemma digits_value_snoc: "digits_value (cs @ [c]) = 10 * digits_value cs + (of_char c - 48)"
  by (simp add: digits_value_def)

lemma digits_value_digits: "0 \<le> n \<Longrightarrow> digits_value (digits n) = n"
proof (induction n rule: digits.induct)
  case (1 n)
  show ?case
  proof (cases "n < 10")
    case True
    with "1.prems" show ?thesis
      by (subst digits.simps) (simp add: digits_value_def of_char_digit_char)
  next
    case False
    then have "digits_value (digits (n div 10)) = n div 10" using "1.IH" "1.prems" by simp
    then show ?thesis using False
      by (subst digits.simps) (simp add: digits_value_snoc of_char_digit_char)
  qed
qed

lemma hd_digits_not_minus: "0 \<le> n \<Longrightarrow> hd (digits n) \<noteq> CHR ''-''"
proof (induction n rule: digits.induct)
  case (1 n)
  show ?case
  proof (cases "n < 10")
    case True
    with "1.prems" show ?thesis by (subst digits.simps) (simp add: digit_char_not_minus)
  next
    case False
    then have "hd (digits (n div 10)) \<noteq> CHR ''-''" using "1.IH" "1.prems" by simp
    then show ?thesis using False by (subst digits.simps) (simp add: digits_not_Nil)
  qed
qed

lemma is_decimal_digits: "is_decimal (if i < 0 then CHR ''-'' # digits (- i) else digits i)"
proof (cases "i < 0")
  case True
  then show ?thesis by (simp add: is_digits_digits)
next
  case False
  then have n: "0 \<le> i" by simp
  obtain c cs where eq: "digits i = c # cs" using digits_not_Nil [of i] by (cases "digits i") auto
  with hd_digits_not_minus [OF n] have "c \<noteq> CHR ''-''" by simp
  with eq is_digits_digits [OF n] False show ?thesis by simp
qed

lemma decimal_value_digits:
  "decimal_value (if i < 0 then CHR ''-'' # digits (- i) else digits i) = i"
proof (cases "i < 0")
  case True
  then show ?thesis by (simp add: digits_value_digits)
next
  case False
  then have n: "0 \<le> i" by simp
  obtain c cs where eq: "digits i = c # cs" using digits_not_Nil [of i] by (cases "digits i") auto
  with hd_digits_not_minus [OF n] have "c \<noteq> CHR ''-''" by simp
  with eq digits_value_digits [OF n] False show ?thesis by simp
qed

lemma toString_Integer:
  "\<bar>i\<bar> \<le> 9007199254740992 \<Longrightarrow>
     toString E (Integer i) = (if i < 0 then CHR ''-'' # digits (- i) else digits i)"
  by (simp add: toString_def)

lemma is_decimal_toString:
  "\<bar>i\<bar> \<le> 9007199254740992 \<Longrightarrow> is_decimal (toString E (Integer i))"
  by (simp only: toString_Integer is_decimal_digits)

lemma decimal_value_toString:
  "\<bar>i\<bar> \<le> 9007199254740992 \<Longrightarrow> decimal_value (toString E (Integer i)) = i"
  by (simp only: toString_Integer decimal_value_digits)

subsection \<open>Integers that a double holds\<close>

lemma bitLength_le: "a < 2 ^ n \<Longrightarrow> bitLength a \<le> n"
proof (induction n arbitrary: a)
  case 0
  then show ?case by (subst bitLength.simps) simp
next
  case (Suc n)
  from Suc.prems have "a div 2 < 2 ^ n" by simp
  from Suc.IH [OF this] show ?case by (subst bitLength.simps) simp
qed

lemma round53_small:
  assumes "\<bar>x\<bar> < 9007199254740992"
  shows "round53 x = x"
proof -
  have "\<bar>x\<bar> < 2 ^ 53" using assms by simp
  from bitLength_le [OF this] have "bitLength \<bar>x\<bar> - 53 = 0" by simp
  then show ?thesis
    by (simp add: round53_def Let_def) (simp add: sgn_if abs_if)
qed

lemma round53_exact:
  assumes "\<bar>x\<bar> \<le> 9007199254740992"
  shows "round53 x = x"
proof (cases "\<bar>x\<bar> < 9007199254740992")
  case True
  then show ?thesis by (rule round53_small)
next
  case False
  with assms have "x = 9007199254740992 \<or> x = - 9007199254740992" by auto
  moreover have "round53 9007199254740992 = 9007199254740992" by code_simp
  moreover have "round53 (- 9007199254740992) = - 9007199254740992" by code_simp
  ultimately show ?thesis by auto
qed

lemma roundInteger_exact:
  assumes "\<bar>x\<bar> \<le> 9007199254740992"
  shows "roundInteger x = Integer x"
proof -
  have "(9007199254740992 :: int) < 2 ^ 1024" by simp
  with assms have "x < 2 ^ 1024" "- (2 ^ 1024) < x" by linarith+
  then show ?thesis
    by (simp add: roundInteger_def Let_def round53_exact [OF assms])
qed

lemma currentSeconds_range:
  assumes "\<bar>dateNow E\<bar> \<le> 8640000000000000"
  shows "\<bar>currentSeconds E\<bar> \<le> 8640000000000"
  using assms unfolding currentSeconds_def by linarith

subsection \<open>Sequencing and the trace\<close>

lemma bind_cases:
  assumes "bind m k s = (r, s'')"
  obtains (raised) e where "m s = (Inl e, s'')" "r = Inl e"
        | (returned) x s' where "m s = (Inr x, s')" "k x s' = (r, s'')"
  using assms by (auto simp: bind_def split: prod.splits sum.splits)

lemma call_trace:
  "call ev f s = (r, s') \<Longrightarrow>
     trace s' = trace s @ [ev] \<and> walletProvider s' = walletProvider s \<and> r = f (trace s)"
  by (auto simp: call_def)

lemma getWalletProvider_trace:
  "getWalletProvider E k s = (r, s') \<Longrightarrow> \<exists>evs. trace s' = trace s @ evs \<and> list_all isWallet evs"
  by (auto simp: getWalletProvider_def return_def bind_def call_def split: if_splits sum.splits)

lemma connectedAddress_trace:
  assumes "connectedAddress E k s = (r, s')"
  shows "\<exists>evs. trace s' = trace s @ evs \<and> list_all isWallet evs"
  using assms unfolding connectedAddress_def
  apply (elim bind_cases)
  apply (auto dest!: getWalletProvider_trace call_trace simp: return_def split: if_splits)
  done

lemma gatewayCalls_append: "gatewayCalls (xs @ ys) = gatewayCalls xs @ gatewayCalls ys"
  by (simp add: gatewayCalls_def)

lemma gatewayCalls_wallet: "list_all isWallet evs \<Longrightarrow> gatewayCalls evs = []"
proof (induction evs)
  case Nil
  show ?case by (simp add: gatewayCalls_def)
next
  case (Cons e evs)
  then show ?case by (cases e) (simp_all add: gatewayCalls_def)
qed

lemma gatewayCalls_signing: "list_all isSigning evs \<Longrightarrow> gatewayCalls evs = []"
proof (induction evs)
  case Nil
  show ?case by (simp add: gatewayCalls_def)
next
  case (Cons e evs)
  then show ?case by (cases e) (simp_all add: gatewayCalls_def isSigning_def)
qed

lemma gatewayCalls_decode: "list_all isDecode evs \<Longrightarrow> gatewayCalls evs = []"
proof (induction evs)
  case Nil
  show ?case by (simp add: gatewayCalls_def)
next
  case (Cons e evs)
  then show ?case by (cases e) (simp_all add: gatewayCalls_def)
qed

lemma signing_wallet: "list_all isWallet evs \<Longrightarrow> filter isSigning evs = []"
proof (induction evs)
  case Nil
  show ?case by simp
next
  case (Cons e evs)
  then show ?case by (cases e) (simp_all add: isSigning_def)
qed

lemma initialRequest_returns:
  assumes "initialRequest E k params s = (Inr (request, r), s1)"
  shows "\<exists>evs. trace s1 = trace s @ evs @ [QueryDatabase request None] \<and> list_all isWallet evs
           \<and> publisherId request = providerId params \<and> req_sql request = sql params
           \<and> queryDatabase E (trace s @ evs) request None = Inr r"
  using assms unfolding initialRequest_def Let_def
  apply (elim bind_cases)
    apply simp_all
  apply (auto dest!: connectedAddress_trace call_trace simp: return_def)
  done

lemma initialRequest_raises:
  assumes "initialRequest E k params s = (Inl e, s1)"
  shows "\<exists>evs. list_all isWallet evs \<and>
           (trace s1 = trace s @ evs \<or>
            (\<exists>request. trace s1 = trace s @ evs @ [QueryDatabase request None]
               \<and> publisherId request = providerId params \<and> req_sql request = sql params))"
  using assms unfolding initialRequest_def Let_def
  apply (elim bind_cases)
    apply simp_all
   apply (auto dest!: connectedAddress_trace call_trace simp: return_def)
  done

lemma prepareTypedData_trace:
  assumes "prepareTypedData E m a s = (r, s')"
  shows "\<exists>evs. trace s' = trace s @ evs \<and> list_all isBuild evs"
  using assms unfolding prepareTypedData_def Let_def
  apply (elim bind_cases)
  apply (auto dest!: call_trace simp: return_def)
  done

lemma buildPaymentPayload_trace:
  assumes "buildPaymentPayload E m a s = (r, s')"
  shows "\<exists>evs. trace s' = trace s @ evs \<and> list_all isSigning evs"
  using assms unfolding buildPaymentPayload_def
  by (auto elim!: bind_cases dest!: call_trace prepareTypedData_trace
        simp: return_def isSigning_def list_all_iff)

lemma fromPaymentResponse_trace:
  assumes "fromPaymentResponse E p s = (r, s')"
  shows "\<exists>evs. trace s' = trace s @ evs \<and> list_all isDecode evs"
  using assms unfolding fromPaymentResponse_def
  by (auto dest!: call_trace simp: return_def split: option.splits if_splits)

lemma extractTxHash_trace:
  assumes "extractTxHash E p d s = (r, s')"
  shows "\<exists>evs. trace s' = trace s @ evs \<and> list_all isDecode evs"
  using assms unfolding extractTxHash_def
  by (auto dest!: fromPaymentResponse_trace simp: return_def split: option.splits if_splits)

subsection \<open>The paths of an execution\<close>

lemma executeQuery_after:
  assumes "validateInput E params = None"
      and "initialRequest E k params s = (Inr (request, initialResult), s1)"
  shows "executeQuery E k params s =
           (case afterInitial E request initialResult s1 of
              (Inl e, s') \<Rightarrow> (catchBlock e, s')
            | (Inr r, s') \<Rightarrow> (r, s'))"
  using assms by (simp add: executeQuery_def tryBlock_def bind_def)

lemma afterInitial_pay:
  assumes "status initialResult = 402"
      and "paymentRequired initialResult = Some required"
      and "accepts required = m # ms"
  shows "afterInitial E request initialResult = payAndRetry E request m"
  using assms by (simp add: afterInitial_def)

lemma buildPaymentPayload_returns:
  assumes "buildPaymentPayload E requirement fromAddress s = (Inr p, s')"
  shows "\<exists>message typedData s1 sig.
           prepareTypedData E requirement fromAddress s = (Inr (message, typedData), s1)
         \<and> signTypedData E (trace s1) (td_domain typedData) (td_message typedData) = Inr sig
         \<and> s' = s1\<lparr>trace := trace s1 @ [SignTypedData (td_domain typedData) (td_message typedData)]\<rparr>
         \<and> p = wirePayload E requirement fromAddress message sig"
  using assms unfolding buildPaymentPayload_def
  by (auto elim!: bind_cases simp: return_def call_def)

lemma prepareTypedData_returns:
  assumes "prepareTypedData E requirement fromAddress s = (Inr (message, typedData), s1)"
  shows "\<exists>d. trace s1 = trace s @
           [BuildDomain (domainArgs requirement),
            BuildAuthorizationMessage (authorizationArgs E requirement fromAddress),
            BuildTypedData d message]
         \<and> buildDomain E (trace s) (domainArgs requirement) = Inr d
         \<and> buildAuthorizationMessage E (trace s @ [BuildDomain (domainArgs requirement)])
              (authorizationArgs E requirement fromAddress) = Inr message
         \<and> buildTypedData E (trace s @ [BuildDomain (domainArgs requirement),
              BuildAuthorizationMessage (authorizationArgs E requirement fromAddress)])
              d message = Inr typedData"
  using assms unfolding prepareTypedData_def Let_def
  by (auto elim!: bind_cases simp: return_def call_def)

subsection \<open>Validation: trimming and the prefix test\<close>

lemma startsWith_iff: "startsWith s p \<longleftrightarrow> (\<exists>rest. s = p @ rest)"
proof
  assume "startsWith s p"
  then have "s = p @ drop (length p) s"
    by (metis append_take_drop_id startsWith_def)
  then show "\<exists>rest. s = p @ rest" ..
next
  assume "\<exists>rest. s = p @ rest"
  then show "startsWith s p" by (auto simp: startsWith_def)
qed

lemma select_units: "codeUnits ''SELECT'' = [83, 69, 76, 69, 67, 84]"
  by (simp add: codeUnits_def)

lemma toUpperCase_ascii_prefix:
  "list_all isAscii pre \<Longrightarrow> toUpperCase E (pre @ rest) = map asciiUpper pre @ toUpperCase E rest"
  by (induction pre) simp_all

lemma toUpperCase_ascii: "list_all isAscii s \<Longrightarrow> toUpperCase E s = map asciiUpper s"
  using toUpperCase_ascii_prefix [of s E "[]"] by simp

lemma either_case_upper:
  assumes "list_all2 (\<lambda>c u. c = u \<or> c = u + 32) pre us"
      and "list_all (\<lambda>u. 65 \<le> u \<and> u \<le> 90) us"
  shows "map asciiUpper pre = us \<and> list_all isAscii pre \<and> (\<forall>c\<in>set pre. \<not> isWhiteSpace c)"
  using assms
proof (induction pre us rule: list_all2_induct)
  case Nil
  show ?case by simp
next
  case (Cons c pre u us)
  from Cons.hyps(1) Cons.prems have "asciiUpper c = u \<and> isAscii c \<and> \<not> isWhiteSpace c"
    by (auto simp: asciiUpper_def isAscii_def isWhiteSpace_def)
  with Cons show ?case by simp
qed

lemma upper_either_case:
  assumes "map asciiUpper pre = us"
      and "list_all (\<lambda>u. 65 \<le> u \<and> u \<le> 90) us"
  shows "list_all2 (\<lambda>c u. c = u \<or> c = u + 32) pre us"
  using assms
proof (induction pre arbitrary: us)
  case Nil
  then show ?case by simp
next
  case (Cons c pre)
  then obtain u us' where us: "us = u # us'" "asciiUpper c = u" "map asciiUpper pre = us'"
    by auto
  with Cons.prems(2) have "65 \<le> u \<and> u \<le> 90" "list_all (\<lambda>u. 65 \<le> u \<and> u \<le> 90) us'"
    by simp_all
  with us Cons.IH [of us'] have "c = u \<or> c = u + 32" "list_all2 (\<lambda>c u. c = u \<or> c = u + 32) pre us'"
    by (auto simp: asciiUpper_def split: if_splits)
  with us show ?case by simp
qed

lemma select_is_upper: "list_all (\<lambda>u. 65 \<le> u \<and> u \<le> 90) [83, 69, 76, 69, 67, 84 :: int]"
  by simp

lemma map_prefix_split:
  "map f xs = p @ r \<Longrightarrow> \<exists>pre post. xs = pre @ post \<and> map f pre = p"
  by (auto simp: map_eq_append_conv)

lemma trim_decomposition:
  "\<exists>ws trailing. s = ws @ trim s @ trailing \<and> list_all isWhiteSpace ws"
proof -
  let ?t = "dropWhile isWhiteSpace s"
  have "rev (takeWhile isWhiteSpace (rev ?t) @ dropWhile isWhiteSpace (rev ?t)) = rev (rev ?t)"
    by (simp only: takeWhile_dropWhile_id)
  then have "rev (dropWhile isWhiteSpace (rev ?t)) @ rev (takeWhile isWhiteSpace (rev ?t)) = ?t"
    by (simp only: rev_append rev_rev_ident)
  then have t: "?t = trim s @ rev (takeWhile isWhiteSpace (rev ?t))"
    by (simp only: trim_def)
  have "s = takeWhile isWhiteSpace s @ ?t"
    by simp
  with t have "s = takeWhile isWhiteSpace s @ trim s @ rev (takeWhile isWhiteSpace (rev ?t))"
    by simp
  moreover have "list_all isWhiteSpace (takeWhile isWhiteSpace s)"
    by (simp add: list_all_iff) (meson set_takeWhileD)
  ultimately show ?thesis by blast
qed

lemma trim_keeps_prefix:
  assumes "pre \<noteq> []" and "\<forall>c\<in>set pre. \<not> isWhiteSpace c" and "list_all isWhiteSpace ws"
  shows "\<exists>rest'. trim (ws @ pre @ rest) = pre @ rest'"
proof -
  from assms(1) obtain c cs where pre: "pre = c # cs" by (cases pre) auto
  with assms(2) have c: "\<not> isWhiteSpace c" by simp
  from assms(1) have "rev pre \<noteq> []" by simp
  then obtain l ls where rpre: "rev pre = l # ls" by (cases "rev pre") auto
  then have "l \<in> set pre" by (metis list.set_intros(1) set_rev)
  with assms(2) have l: "\<not> isWhiteSpace l" by simp
  have "dropWhile isWhiteSpace (ws @ pre @ rest) = dropWhile isWhiteSpace (pre @ rest)"
    using assms(3) by (simp add: dropWhile_append2 list_all_iff)
  also have "\<dots> = pre @ rest" using pre c by simp
  finally have lead: "dropWhile isWhiteSpace (ws @ pre @ rest) = pre @ rest" .
  have "dropWhile isWhiteSpace (rev rest @ rev pre) =
          (if \<forall>x\<in>set (rev rest). isWhiteSpace x then rev pre
           else dropWhile isWhiteSpace (rev rest) @ rev pre)"
    using rpre l by (simp add: dropWhile_append)
  then have "rev (dropWhile isWhiteSpace (rev (pre @ rest))) =
          (if \<forall>x\<in>set (rev rest). isWhiteSpace x then pre
           else pre @ rev (dropWhile isWhiteSpace (rev rest)))"
    by simp
  with lead show ?thesis by (auto simp: trim_def)
qed

lemma accepted_if_reads:
  assumes "s = ws @ pre @ rest" and "list_all isWhiteSpace ws"
      and "list_all2 (\<lambda>c u. c = u \<or> c = u + 32) pre us"
      and "list_all (\<lambda>u. 65 \<le> u \<and> u \<le> 90) us" and "us \<noteq> []"
  shows "startsWith (toUpperCase E (trim s)) us"
proof -
  from either_case_upper [OF assms(3,4)]
  have up: "map asciiUpper pre = us" and ascii: "list_all isAscii pre"
    and nows: "\<forall>c\<in>set pre. \<not> isWhiteSpace c"
    by blast+
  from up assms(5) have ne: "pre \<noteq> []" by auto
  from trim_keeps_prefix [OF ne nows assms(2), of rest] assms(1) obtain rest' where
    "trim s = pre @ rest'" by blast
  with toUpperCase_ascii_prefix [OF ascii, of E rest'] up
  have "toUpperCase E (trim s) = us @ toUpperCase E rest'"
    by simp
  then show ?thesis
    unfolding startsWith_iff by blast
qed

lemma reads_if_accepted:
  assumes "list_all isAscii s"
      and "startsWith (toUpperCase E (trim s)) us"
      and "list_all (\<lambda>u. 65 \<le> u \<and> u \<le> 90) us"
  shows "\<exists>ws pre rest. s = ws @ pre @ rest \<and> list_all isWhiteSpace ws
           \<and> list_all2 (\<lambda>c u. c = u \<or> c = u + 32) pre us"
proof -
  from trim_decomposition [of s] obtain ws trailing where
    s: "s = ws @ trim s @ trailing" and ws: "list_all isWhiteSpace ws" by blast
  have "set (trim s) \<subseteq> set s"
    by (subst (2) s) auto
  with assms(1) have "list_all isAscii (trim s)"
    by (auto simp: list_all_iff)
  from toUpperCase_ascii [OF this] assms(2) obtain r where
    "map asciiUpper (trim s) = us @ r"
    unfolding startsWith_iff by auto
  from map_prefix_split [OF this] obtain pre post where
    tr: "trim s = pre @ post" and up: "map asciiUpper pre = us"
    by blast
  from upper_either_case [OF up assms(3)]
  have "list_all2 (\<lambda>c u. c = u \<or> c = u + 32) pre us" .
  moreover from s tr have "s = ws @ pre @ (post @ trailing)" by simp
  ultimately show ?thesis using ws by blast
qed

lemma accepted_if_reads_select:
  assumes "s = ws @ pre @ rest" and "list_all isWhiteSpace ws" and "readsSelect pre"
  shows "startsWith (toUpperCase E (trim s)) (codeUnits ''SELECT'')"
proof -
  have ne: "[83, 69, 76, 69, 67, 84 :: int] \<noteq> []" by simp
  from assms(3) have "list_all2 (\<lambda>c u. c = u \<or> c = u + 32) pre [83, 69, 76, 69, 67, 84]"
    by (simp only: readsSelect_def)
  from accepted_if_reads [OF assms(1,2) this select_is_upper ne] show ?thesis
    by (simp only: select_units)
qed

lemma reads_select_if_accepted:
  assumes "list_all isAscii s"
      and "startsWith (toUpperCase E (trim s)) (codeUnits ''SELECT'')"
  shows "\<exists>ws pre rest. s = ws @ pre @ rest \<and> list_all isWhiteSpace ws \<and> readsSelect pre"
proof -
  from assms(2) have "startsWith (toUpperCase E (trim s)) [83, 69, 76, 69, 67, 84]"
    by (simp only: select_units)
  from reads_if_accepted [OF assms(1) this select_is_upper] show ?thesis
    by (simp only: readsSelect_def)
qed

lemma validateInput_None_iff:
  "validateInput E params = None \<longleftrightarrow>
     providerId params \<noteq> []
     \<and> startsWith (toUpperCase E (trim (sql params))) (codeUnits ''SELECT'')"
proof -
  have "\<not> startsWith (toUpperCase E (trim [])) (codeUnits ''SELECT'')"
    by (simp add: startsWith_def trim_def codeUnits_def)
  then show ?thesis
    by (auto simp: validateInput_def Let_def)
qed

subsection \<open>The calls of the gateway in one execution\<close>

lemma gatewayCalls_single: "gatewayCalls [QueryDatabase q p] = [QueryDatabase q p]"
  by (simp add: gatewayCalls_def)

lemma gatewayCalls_Nil: "gatewayCalls [] = []"
  by (simp add: gatewayCalls_def)

lemma payAndRetry_trace:
  assumes "payAndRetry E request m s1 = (x, s')"
  shows "\<exists>evs. trace s' = trace s1 @ evs \<and>
           (gatewayCalls evs = [] \<or> (\<exists>p. gatewayCalls evs = [QueryDatabase request (Some p)]))"
  using assms unfolding payAndRetry_def
proof (elim bind_cases)
  fix e
  assume "buildPaymentPayload E m (agentWallet request) s1 = (Inl e, s')"
  from buildPaymentPayload_trace [OF this] show ?thesis
    by (auto simp: gatewayCalls_signing)
next
  fix p s2 e
  assume b: "buildPaymentPayload E m (agentWallet request) s1 = (Inr p, s2)"
    and c: "call (QueryDatabase request (Some p)) (\<lambda>h. queryDatabase E h request (Some p)) s2
              = (Inl e, s')"
  from buildPaymentPayload_trace [OF b] obtain evs where
    evs: "trace s2 = trace s1 @ evs" "list_all isSigning evs" by blast
  from call_trace [OF c] evs have "trace s' = trace s1 @ (evs @ [QueryDatabase request (Some p)])"
    by simp
  moreover have "gatewayCalls (evs @ [QueryDatabase request (Some p)]) = [QueryDatabase request (Some p)]"
    using evs(2) by (simp add: gatewayCalls_append gatewayCalls_signing gatewayCalls_single)
  ultimately show ?thesis by blast
next
  fix p s2 paidResult s3
  assume b: "buildPaymentPayload E m (agentWallet request) s1 = (Inr p, s2)"
    and c: "call (QueryDatabase request (Some p)) (\<lambda>h. queryDatabase E h request (Some p)) s2
              = (Inr paidResult, s3)"
    and r: "(case data paidResult of
               None \<Rightarrow> return (failure ''No data returned from gateway'')
             | Some d \<Rightarrow> bind (extractTxHash E paidResult d) (\<lambda>tx. return (succeeded d tx))) s3
            = (x, s')"
  from buildPaymentPayload_trace [OF b] obtain evs where
    evs: "trace s2 = trace s1 @ evs" "list_all isSigning evs" by blast
  from call_trace [OF c] evs have s3: "trace s3 = trace s1 @ (evs @ [QueryDatabase request (Some p)])"
    by simp
  have g: "gatewayCalls (evs @ [QueryDatabase request (Some p)]) = [QueryDatabase request (Some p)]"
    using evs(2) by (simp add: gatewayCalls_append gatewayCalls_signing gatewayCalls_single)
  from r have "\<exists>more. trace s' = trace s3 @ more \<and> list_all isDecode more"
    by (cases "data paidResult")
       (auto simp: return_def elim!: bind_cases dest!: extractTxHash_trace)
  then obtain more where more: "trace s' = trace s3 @ more" "list_all isDecode more" by blast
  with s3 have "trace s' = trace s1 @ ((evs @ [QueryDatabase request (Some p)]) @ more)"
    by simp
  moreover have "gatewayCalls ((evs @ [QueryDatabase request (Some p)]) @ more)
                   = [QueryDatabase request (Some p)]"
    using g more(2) by (simp only: gatewayCalls_append gatewayCalls_decode append_Nil2)
  ultimately show ?thesis by blast
qed

lemma afterInitial_trace:
  assumes "afterInitial E request r s1 = (x, s')"
  shows "\<exists>evs. trace s' = trace s1 @ evs \<and>
           (gatewayCalls evs = [] \<or> (\<exists>p. gatewayCalls evs = [QueryDatabase request (Some p)]))"
proof -
  have stay: "s' = s1 \<Longrightarrow> ?thesis"
    by (auto simp: gatewayCalls_Nil)
  from assms show ?thesis
    unfolding afterInitial_def
    by (auto simp: return_def stay gatewayCalls_Nil split: if_splits option.splits list.splits
          dest: payAndRetry_trace)
qed

lemma executeQuery_trace:
  "\<exists>evs request. trace (snd (executeQuery E k params s)) = trace s @ evs
     \<and> publisherId request = providerId params \<and> req_sql request = sql params
     \<and> (gatewayCalls evs = [] \<or> gatewayCalls evs = [QueryDatabase request None]
        \<or> (\<exists>p. gatewayCalls evs = [QueryDatabase request None, QueryDatabase request (Some p)]))"
proof -
  let ?dummy = "\<lparr>publisherId = providerId params, agentWallet = [], req_sql = sql params\<rparr>"
  have unchanged: "snd (executeQuery E k params s) = s \<Longrightarrow> ?thesis"
    by (rule exI [of _ "[]"], rule exI [of _ ?dummy]) (simp add: gatewayCalls_Nil)
  show ?thesis
  proof (cases "validateInput E params")
    case (Some r)
    then show ?thesis by (intro unchanged) (simp add: executeQuery_def)
  next
    case None
    obtain y s1 where init: "initialRequest E k params s = (y, s1)" by (cases "initialRequest E k params s")
    show ?thesis
    proof (cases y)
      case (Inl e)
      with init None have "snd (executeQuery E k params s) = s1"
        by (simp add: executeQuery_def tryBlock_def bind_def)
      moreover from initialRequest_raises [OF init [unfolded Inl]] obtain evs where
        w: "list_all isWallet evs" and
        alt: "trace s1 = trace s @ evs \<or>
            (\<exists>request. trace s1 = trace s @ evs @ [QueryDatabase request None]
               \<and> publisherId request = providerId params \<and> req_sql request = sql params)"
        by blast
      from alt show ?thesis
      proof
        assume "trace s1 = trace s @ evs"
        with w \<open>snd (executeQuery E k params s) = s1\<close> show ?thesis
          by (intro exI [of _ evs] exI [of _ ?dummy]) (simp add: gatewayCalls_wallet)
      next
        assume "\<exists>request. trace s1 = trace s @ evs @ [QueryDatabase request None]
               \<and> publisherId request = providerId params \<and> req_sql request = sql params"
        then obtain request where q: "trace s1 = trace s @ evs @ [QueryDatabase request None]"
          "publisherId request = providerId params" "req_sql request = sql params" by blast
        have "gatewayCalls (evs @ [QueryDatabase request None]) = [QueryDatabase request None]"
          using w by (simp add: gatewayCalls_append gatewayCalls_wallet gatewayCalls_single)
        with q \<open>snd (executeQuery E k params s) = s1\<close> show ?thesis
          by (intro exI [of _ "evs @ [QueryDatabase request None]"] exI [of _ request]) simp
      qed
    next
      case (Inr pair)
      obtain request r where pair: "pair = (request, r)" by (cases pair)
      from init Inr pair have init': "initialRequest E k params s = (Inr (request, r), s1)" by simp
      obtain x s' where after: "afterInitial E request r s1 = (x, s')"
        by (cases "afterInitial E request r s1")
      from executeQuery_after [OF None init'] after have fin: "snd (executeQuery E k params s) = s'"
        by (cases x) simp_all
      from initialRequest_returns [OF init'] obtain evs where
        e1: "trace s1 = trace s @ evs @ [QueryDatabase request None]" "list_all isWallet evs"
        "publisherId request = providerId params" "req_sql request = sql params" by blast
      from afterInitial_trace [OF after] obtain more where
        e2: "trace s' = trace s1 @ more"
        "gatewayCalls more = [] \<or> (\<exists>p. gatewayCalls more = [QueryDatabase request (Some p)])"
        by blast
      have g1: "gatewayCalls (evs @ [QueryDatabase request None]) = [QueryDatabase request None]"
        using e1(2) by (simp add: gatewayCalls_append gatewayCalls_wallet gatewayCalls_single)
      have tr: "trace s' = trace s @ ((evs @ [QueryDatabase request None]) @ more)"
        using e1(1) e2(1) by simp
      have "gatewayCalls ((evs @ [QueryDatabase request None]) @ more) = [QueryDatabase request None]
          \<or> (\<exists>p. gatewayCalls ((evs @ [QueryDatabase request None]) @ more)
                 = [QueryDatabase request None, QueryDatabase request (Some p)])"
        using e2(2) g1 by (auto simp only: gatewayCalls_append append_Nil2 append_Cons append_Nil)
      with tr fin e1(3,4) show ?thesis
        by (intro exI [of _ "(evs @ [QueryDatabase request None]) @ more"] exI [of _ request]) simp
    qed
  qed
qed

lemma executeQuery_reaches_gateway:
  assumes "validateInput E params = None"
      and "connectedAddress E k s = (Inr address, s1)"
  shows "\<exists>evs. trace (snd (executeQuery E k params s)) =
           trace s1 @ QueryDatabase
             \<lparr>publisherId = providerId params, agentWallet = address, req_sql = sql params\<rparr> None # evs"
proof -
  let ?request = "\<lparr>publisherId = providerId params, agentWallet = address, req_sql = sql params\<rparr>"
  let ?s2 = "s1\<lparr>trace := trace s1 @ [QueryDatabase ?request None]\<rparr>"
  show ?thesis
  proof (cases "queryDatabase E (trace s1) ?request None")
    case (Inl e)
    with assms have "executeQuery E k params s = (catchBlock e, ?s2)"
      by (simp add: executeQuery_def tryBlock_def initialRequest_def bind_def call_def Let_def)
    then show ?thesis by simp
  next
    case (Inr r)
    with assms(2) have init: "initialRequest E k params s = (Inr (?request, r), ?s2)"
      by (simp add: initialRequest_def bind_def call_def return_def Let_def)
    obtain x s' where after: "afterInitial E ?request r ?s2 = (x, s')"
      by (cases "afterInitial E ?request r ?s2")
    from executeQuery_after [OF assms(1) init] after have "snd (executeQuery E k params s) = s'"
      by (cases x) simp_all
    moreover from afterInitial_trace [OF after] obtain more where "trace s' = trace ?s2 @ more"
      by blast
    ultimately show ?thesis by simp
  qed
qed

subsection \<open>The validity window and the calls of a build\<close>

lemma validAfter_exact:
  assumes "\<bar>dateNow E\<bar> \<le> 8640000000000000"
  shows "aa_validAfter (authorizationArgs E requirement fromAddress) = Integer (currentSeconds E - 60)"
proof -
  from currentSeconds_range [OF assms] have "\<bar>currentSeconds E - 60\<bar> \<le> 9007199254740992"
    by linarith
  from roundInteger_exact [OF this] show ?thesis
    by (simp add: authorizationArgs_def Let_def)
qed

lemma validBefore_rounded:
  assumes "maxTimeoutSeconds requirement = Integer t"
  shows "aa_validBefore (authorizationArgs E requirement fromAddress)
           = roundInteger (currentSeconds E + t)"
  using assms by (simp add: authorizationArgs_def Let_def)

lemma validBefore_exact:
  assumes "maxTimeoutSeconds requirement = Integer t"
      and "\<bar>currentSeconds E + t\<bar> \<le> 9007199254740992"
  shows "aa_validBefore (authorizationArgs E requirement fromAddress)
           = Integer (currentSeconds E + t)"
  using validBefore_rounded [OF assms(1)] roundInteger_exact [OF assms(2)] by simp


lemma buildPaymentPayload_trace_exact:
  assumes "buildPaymentPayload E requirement fromAddress s = (Inr p, s')"
  shows "\<exists>d m (td :: typed_data) sig. trace s' = trace s @
           [BuildDomain (domainArgs requirement),
            BuildAuthorizationMessage (authorizationArgs E requirement fromAddress),
            BuildTypedData d m, SignTypedData (td_domain td) (td_message td)]
         \<and> buildAuthorizationMessage E (trace s @ [BuildDomain (domainArgs requirement)])
              (authorizationArgs E requirement fromAddress) = Inr m
         \<and> signTypedData E (trace s @
              [BuildDomain (domainArgs requirement),
               BuildAuthorizationMessage (authorizationArgs E requirement fromAddress),
               BuildTypedData d m]) (td_domain td) (td_message td) = Inr sig
         \<and> p = wirePayload E requirement fromAddress m sig"
proof -
  from buildPaymentPayload_returns [OF assms] obtain message typedData s1 sig where
    prep: "prepareTypedData E requirement fromAddress s = (Inr (message, typedData), s1)"
    and sig: "signTypedData E (trace s1) (td_domain typedData) (td_message typedData) = Inr sig"
    and s': "s' = s1\<lparr>trace := trace s1 @ [SignTypedData (td_domain typedData) (td_message typedData)]\<rparr>"
    and p: "p = wirePayload E requirement fromAddress message sig"
    by blast
  from prepareTypedData_returns [OF prep] obtain d where
    t1: "trace s1 = trace s @
           [BuildDomain (domainArgs requirement),
            BuildAuthorizationMessage (authorizationArgs E requirement fromAddress),
            BuildTypedData d message]"
    and m: "buildAuthorizationMessage E (trace s @ [BuildDomain (domainArgs requirement)])
              (authorizationArgs E requirement fromAddress) = Inr message"
    by blast
  from t1 s' have t2: "trace s' = trace s @
           [BuildDomain (domainArgs requirement),
            BuildAuthorizationMessage (authorizationArgs E requirement fromAddress),
            BuildTypedData d message, SignTypedData (td_domain typedData) (td_message typedData)]"
    by simp
  from sig t1 have sig': "signTypedData E (trace s @
              [BuildDomain (domainArgs requirement),
               BuildAuthorizationMessage (authorizationArgs E requirement fromAddress),
               BuildTypedData d message]) (td_domain typedData) (td_message typedData) = Inr sig"
    by simp
  from t2 m sig' p show ?thesis
    by blast
qed

lemma wirePayload_window:
  "auth_validAfter (authorization (payload (wirePayload E requirement fromAddress m sg)))
     = toString E (aa_validAfter (authorizationArgs E requirement fromAddress))
   \<and> auth_validBefore (authorization (payload (wirePayload E requirement fromAddress m sg)))
     = toString E (aa_validBefore (authorizationArgs E requirement fromAddress))"
  by (simp add: wirePayload_def Let_def)

subsection \<open>Validation, in terms of code units\<close>

lemma list_all_isWhiteSpace:
  "list_all isWhiteSpace ws \<longleftrightarrow>
     (\<forall>c\<in>set ws. c \<in> {9, 10, 11, 12, 13, 32, 160, 5760, 8232, 8233, 8239, 8287,
                   12288, 65279} \<or> (8192 \<le> c \<and> c \<le> 8202))"
  by (simp add: list_all_iff isWhiteSpace_def)

lemma list_all_isAscii: "list_all isAscii s \<longleftrightarrow> (\<forall>c\<in>set s. 0 \<le> c \<and> c < 128)"
  by (simp add: list_all_iff isAscii_def)


lemma accepted_iff_reads_select:
  "(providerId params \<noteq> []
      \<and> (\<exists>ws pre rest. sql params = ws @ pre @ rest \<and> list_all isWhiteSpace ws
            \<and> readsSelect pre)
    \<longrightarrow> validateInput E params = None)
   \<and> (validateInput E params = None \<and> list_all isAscii (sql params)
    \<longrightarrow> (\<exists>ws pre rest. sql params = ws @ pre @ rest \<and> list_all isWhiteSpace ws
            \<and> readsSelect pre))"
  using accepted_if_reads_select [of "sql params" _ _ _ E]
    reads_select_if_accepted [of "sql params" E]
  unfolding validateInput_None_iff by blast

lemma accepted_iff_reads_units:
  "(providerId params \<noteq> []
      \<and> (\<exists>ws pre rest. sql params = ws @ pre @ rest
            \<and> (\<forall>c\<in>set ws. c \<in> {9, 10, 11, 12, 13, 32, 160, 5760, 8232, 8233, 8239, 8287,
                   12288, 65279} \<or> (8192 \<le> c \<and> c \<le> 8202))
            \<and> list_all2 (\<lambda>c u. c = u \<or> c = u + 32) pre [83, 69, 76, 69, 67, 84])
    \<longrightarrow> validateInput E params = None)
   \<and> (validateInput E params = None \<and> (\<forall>c\<in>set (sql params). 0 \<le> c \<and> c < 128)
    \<longrightarrow> (\<exists>ws pre rest. sql params = ws @ pre @ rest
            \<and> (\<forall>c\<in>set ws. c \<in> {9, 10, 11, 12, 13, 32, 160, 5760, 8232, 8233, 8239, 8287,
                   12288, 65279} \<or> (8192 \<le> c \<and> c \<le> 8202))
            \<and> list_all2 (\<lambda>c u. c = u \<or> c = u + 32) pre [83, 69, 76, 69, 67, 84]))"
  unfolding list_all_isWhiteSpace [symmetric] readsSelect_def [symmetric]
    list_all_isAscii [symmetric]
  by (rule accepted_iff_reads_select)

section \<open>The claims\<close>




text \<open>
  Claim C2 says that the gateway is called at most twice and that a retry answered by
  another payment-required response ends in an error classified as a rejected payment.
  The first part holds. For the second, \<^verbatim>\<open>executeQuery\<close> never reads the status of the
  retry's response (lines 141 to 164 read \<^verbatim>\<open>data\<close> only) and has no such
  classification. Claim C2 as amended: in every execution \<^verbatim>\<open>queryDatabase\<close> is called
  at most twice, first without a payment and then at most once more with the same request
  and the payment payload attached; the status of the retry's response is not inspected:
  if that response carries no \<^verbatim>\<open>data\<close>, as a bare payment-required response does, the
  result is the error \<^verbatim>\<open>No data returned from gateway\<close>, and no further request is
  made.
\<close>

theorem at_most_one_retry:
  "(\<exists>evs request. trace (snd (executeQuery E k params s)) = trace s @ evs
       \<and> length (gatewayCalls evs) \<le> 2
       \<and> publisherId request = providerId params \<and> req_sql request = sql params
       \<and> (gatewayCalls evs = [] \<or> gatewayCalls evs = [QueryDatabase request None]
          \<or> (\<exists>p. gatewayCalls evs = [QueryDatabase request None, QueryDatabase request (Some p)])))
   \<and> (validateInput E params = None
        \<and> initialRequest E k params s = (Inr (initial, initialResult), s1)
        \<and> status initialResult = 402
        \<and> paymentRequired initialResult = Some required
        \<and> accepts required = m # ms
        \<and> buildPaymentPayload E m (agentWallet initial) s1 = (Inr paymentPayload, s2)
        \<and> queryDatabase E (trace s2) initial (Some paymentPayload) = Inr paidResult
        \<and> data paidResult = None
      \<longrightarrow> executeQuery E k params s =
            (failure ''No data returned from gateway'',
             s2\<lparr>trace := trace s2 @ [QueryDatabase initial (Some paymentPayload)]\<rparr>))"
proof (rule conjI)
  from executeQuery_trace [of E k params s] obtain evs request where
    e: "trace (snd (executeQuery E k params s)) = trace s @ evs"
       "publisherId request = providerId params" "req_sql request = sql params"
       "gatewayCalls evs = [] \<or> gatewayCalls evs = [QueryDatabase request None]
        \<or> (\<exists>p. gatewayCalls evs = [QueryDatabase request None, QueryDatabase request (Some p)])"
    by blast
  from e(4) have "length (gatewayCalls evs) \<le> 2" by auto
  with e show "\<exists>evs request. trace (snd (executeQuery E k params s)) = trace s @ evs
       \<and> length (gatewayCalls evs) \<le> 2
       \<and> publisherId request = providerId params \<and> req_sql request = sql params
       \<and> (gatewayCalls evs = [] \<or> gatewayCalls evs = [QueryDatabase request None]
          \<or> (\<exists>p. gatewayCalls evs = [QueryDatabase request None, QueryDatabase request (Some p)]))"
    by blast
next
  show "validateInput E params = None
        \<and> initialRequest E k params s = (Inr (initial, initialResult), s1)
        \<and> status initialResult = 402
        \<and> paymentRequired initialResult = Some required
        \<and> accepts required = m # ms
        \<and> buildPaymentPayload E m (agentWallet initial) s1 = (Inr paymentPayload, s2)
        \<and> queryDatabase E (trace s2) initial (Some paymentPayload) = Inr paidResult
        \<and> data paidResult = None
      \<longrightarrow> executeQuery E k params s =
            (failure ''No data returned from gateway'',
             s2\<lparr>trace := trace s2 @ [QueryDatabase initial (Some paymentPayload)]\<rparr>)"
  proof (intro impI, elim conjE)
    assume v: "validateInput E params = None"
      and i: "initialRequest E k params s = (Inr (initial, initialResult), s1)"
      and c: "status initialResult = 402" "paymentRequired initialResult = Some required"
        "accepts required = m # ms"
      and b: "buildPaymentPayload E m (agentWallet initial) s1 = (Inr paymentPayload, s2)"
      and q: "queryDatabase E (trace s2) initial (Some paymentPayload) = Inr paidResult"
      and d: "data paidResult = None"
    have "payAndRetry E initial m s1 =
            (Inr (failure ''No data returned from gateway''),
             s2\<lparr>trace := trace s2 @ [QueryDatabase initial (Some paymentPayload)]\<rparr>)"
      using b q d by (simp add: payAndRetry_def bind_def call_def return_def)
    with executeQuery_after [OF v i] afterInitial_pay [OF c]
    show "executeQuery E k params s =
            (failure ''No data returned from gateway'',
             s2\<lparr>trace := trace s2 @ [QueryDatabase initial (Some paymentPayload)]\<rparr>)"
      by simp
  qed
qed

text \<open>
  The amended claim at a gateway that answers the retry with a second challenge.
\<close>

theorem at_most_one_retry_witness:
  "data (challenge [requirement0]) = None
   \<and> fst (executeQuery retryChallengedEnv ''key'' params0 idle)
       = failure ''No data returned from gateway''
   \<and> gatewayCalls (trace (snd (executeQuery retryChallengedEnv ''key'' params0 idle)))
       = [QueryDatabase request0 None, QueryDatabase request0 (Some payload0)]"
proof -
  let ?signed = "snd (buildPaymentPayload retryChallengedEnv requirement0 (agentWallet request0) asked0)"
  have h1: "validateInput retryChallengedEnv params0 = None"
    by code_simp
  have h2: "initialRequest retryChallengedEnv ''key'' params0 idle
              = (Inr (request0, challenge [requirement0]), asked0)"
    by code_simp
  have h3: "status (challenge [requirement0]) = 402"
    by (simp add: challenge_def)
  have h4: "paymentRequired (challenge [requirement0])
              = Some \<lparr>pr_x402Version = 1, accepts = [requirement0]\<rparr>"
    by (simp add: challenge_def)
  have h5: "accepts \<lparr>pr_x402Version = 1, accepts = [requirement0]\<rparr> = requirement0 # []"
    by simp
  have h6: "buildPaymentPayload retryChallengedEnv requirement0 (agentWallet request0) asked0
              = (Inr payload0, ?signed)"
    by code_simp
  have h7: "queryDatabase retryChallengedEnv (trace ?signed) request0 (Some payload0)
              = Inr (challenge [requirement0])"
    by (simp add: retryChallengedEnv_def mockEnv_def)
  have h8: "data (challenge [requirement0]) = None"
    by (simp add: challenge_def)
  have g: "gatewayCalls (trace (?signed\<lparr>trace := trace ?signed @ [QueryDatabase request0 (Some payload0)]\<rparr>))
             = [QueryDatabase request0 None, QueryDatabase request0 (Some payload0)]"
    by code_simp
  from at_most_one_retry [of retryChallengedEnv "''key''" params0 idle request0 "challenge [requirement0]" asked0
             "\<lparr>pr_x402Version = 1, accepts = [requirement0]\<rparr>" requirement0 "[]" payload0 ?signed
             "challenge [requirement0]"]
       h1 h2 h3 h4 h5 h6 h7 h8
  have "executeQuery retryChallengedEnv ''key'' params0 idle =
          (failure ''No data returned from gateway'',
           ?signed\<lparr>trace := trace ?signed @ [QueryDatabase request0 (Some payload0)]\<rparr>)"
    by blast
  with g h8 show ?thesis
    by simp
qed

text \<open>
  Claim C2 as stated fails at a retry answered with status 402, a payment requirement and
  \<^verbatim>\<open>data\<close>: the result is a success. And the error for a bare second challenge is the
  one for a retry answered with status 500: it does not say that the payment was
  rejected.
\<close>

theorem second_challenge_counterexample:
  "status twiceChallenged = 402
   \<and> paymentRequired twiceChallenged = Some \<lparr>pr_x402Version = 1, accepts = [requirement0]\<rparr>
   \<and> fst (executeQuery retryChallengedWithDataEnv ''key'' params0 idle)
       = succeeded result0 (Some ''0xtx456'')
   \<and> success (fst (executeQuery retryChallengedWithDataEnv ''key'' params0 idle))
   \<and> fst (executeQuery retryChallengedEnv ''key'' params0 idle)
       = fst (executeQuery retryFailedEnv ''key'' params0 idle)"
  by code_simp







text \<open>
  Claim C5. For every payment-required response whose list of accepted methods is empty,
  \<^verbatim>\<open>executeQuery\<close> returns the error \<^verbatim>\<open>No payment method available\<close> in the state
  the initial request left: nothing was built or signed (the events of building and
  signing in the trace are those that were there before).
\<close>

theorem no_payment_method:
  assumes "validateInput E params = None"
      and "initialRequest E k params s = (Inr (request, initialResult), s1)"
      and "status initialResult = 402"
      and "paymentRequired initialResult = Some required"
      and "accepts required = []"
  shows "executeQuery E k params s = (failure ''No payment method available'', s1)
         \<and> filter isSigning (trace s1) = filter isSigning (trace s)"
proof -
  have "afterInitial E request initialResult s1 = (Inr (failure ''No payment method available''), s1)"
    using assms(3-5) by (simp add: afterInitial_def return_def)
  then have "executeQuery E k params s = (failure ''No payment method available'', s1)"
    using executeQuery_after [OF assms(1,2)] by simp
  moreover from initialRequest_returns [OF assms(2)]
  have "filter isSigning (trace s1) = filter isSigning (trace s)"
    by (auto simp: signing_wallet isSigning_def)
  ultimately show ?thesis by simp
qed

text \<open>
  Claim C5 at the test "should return error when no payment method available".
\<close>

theorem no_payment_method_witness:
  "validateInput emptyEnv params0 = None
   \<and> executeQuery emptyEnv ''key'' params0 idle = (failure ''No payment method available'', asked0)
   \<and> filter isSigning (trace asked0) = []"
proof -
  have h1: "validateInput emptyEnv params0 = None"
    by code_simp
  have h2: "initialRequest emptyEnv ''key'' params0 idle = (Inr (request0, challenge []), asked0)"
    by code_simp
  have h3: "status (challenge []) = 402"
    by (simp add: challenge_def)
  have h4: "paymentRequired (challenge []) = Some \<lparr>pr_x402Version = 1, accepts = []\<rparr>"
    by (simp add: challenge_def)
  have h5: "accepts \<lparr>pr_x402Version = 1, accepts = []\<rparr> = []"
    by simp
  from no_payment_method [OF h1 h2 h3 h4 h5] h1 show ?thesis
    by (simp add: idle_def)
qed

text \<open>
  Claim C6 says that every statement that is not syntactically a read-only SELECT is
  rejected before any I/O. The check of lines 78 to 81 is a prefix test ("Basic SQL
  validation - must start with SELECT"). Claim C6 as amended: for every input with an
  empty \<^verbatim>\<open>providerId\<close>, an empty \<^verbatim>\<open>sql\<close>, or a statement whose trimmed, upper-cased
  text does not begin with \<^verbatim>\<open>SELECT\<close>, \<^verbatim>\<open>executeQuery\<close> returns the validation error
  and leaves the state as it was: neither the gateway nor the wallet is invoked. Among
  the statements so rejected are all those of ASCII that are not made of white space,
  then six letters that read SELECT in upper or lower case, then anything. This holds
  whatever the platform makes of the characters outside ASCII when it puts them in upper
  case.
\<close>

theorem invalid_input_no_io:
  assumes "providerId params = [] \<or> sql params = []
           \<or> \<not> startsWith (toUpperCase E (trim (sql params))) (codeUnits ''SELECT'')
           \<or> ((\<forall>c\<in>set (sql params). 0 \<le> c \<and> c < 128)
              \<and> \<not> (\<exists>ws pre rest. sql params = ws @ pre @ rest
                     \<and> (\<forall>c\<in>set ws. c \<in> {9, 10, 11, 12, 13, 32, 160, 5760, 8232, 8233, 8239, 8287,
                   12288, 65279} \<or> (8192 \<le> c \<and> c \<le> 8202))
                     \<and> list_all2 (\<lambda>c u. c = u \<or> c = u + 32) pre [83, 69, 76, 69, 67, 84]))"
  shows "executeQuery E k params s =
           ((if providerId params = [] then failure ''providerId is required''
             else if sql params = [] then failure ''sql is required''
             else failure ''Only SELECT queries are allowed''), s)"
proof -
  from assms have "providerId params = [] \<or> sql params = []
           \<or> \<not> startsWith (toUpperCase E (trim (sql params))) (codeUnits ''SELECT'')
           \<or> (list_all isAscii (sql params)
              \<and> \<not> (\<exists>ws pre rest. sql params = ws @ pre @ rest \<and> list_all isWhiteSpace ws
                     \<and> readsSelect pre))"
    unfolding list_all_isWhiteSpace [symmetric] readsSelect_def [symmetric]
      list_all_isAscii [symmetric] .
  then have rejected: "providerId params = [] \<or> sql params = []
           \<or> \<not> startsWith (toUpperCase E (trim (sql params))) (codeUnits ''SELECT'')"
  proof (elim disjE conjE)
    assume ascii: "list_all isAscii (sql params)"
      and none: "\<not> (\<exists>ws pre rest. sql params = ws @ pre @ rest \<and> list_all isWhiteSpace ws
                     \<and> readsSelect pre)"
    have "\<not> startsWith (toUpperCase E (trim (sql params))) (codeUnits ''SELECT'')"
    proof
      assume "startsWith (toUpperCase E (trim (sql params))) (codeUnits ''SELECT'')"
      from none reads_select_if_accepted [OF ascii this] show False by (rule notE)
    qed
    then show ?thesis by (intro disjI2)
  qed (erule disjI1, erule disjI2 [OF disjI1], erule disjI2 [OF disjI2])
  then show ?thesis
    by (auto simp: executeQuery_def validateInput_def Let_def)
qed

text \<open>
  The amended claim at the three rejected inputs of the tests, and at a DELETE behind a
  no-break space.
\<close>

theorem invalid_input_no_io_witness:
  "\<not> startsWith (toUpperCase happyEnv (trim (sql delete0))) (codeUnits ''SELECT'')
   \<and> executeQuery happyEnv ''key'' delete0 idle = (failure ''Only SELECT queries are allowed'', idle)
   \<and> executeQuery happyEnv ''key'' (delete0\<lparr>sql := 160 # codeUnits ''DELETE FROM users''\<rparr>) idle
       = (failure ''Only SELECT queries are allowed'', idle)
   \<and> executeQuery happyEnv ''key'' (delete0\<lparr>sql := []\<rparr>) idle = (failure ''sql is required'', idle)
   \<and> executeQuery happyEnv ''key'' (delete0\<lparr>providerId := []\<rparr>) idle
       = (failure ''providerId is required'', idle)"
proof -
  have h: "\<not> startsWith (toUpperCase happyEnv (trim (sql delete0))) (codeUnits ''SELECT'')"
    by code_simp
  have h': "\<not> startsWith (toUpperCase happyEnv
      (trim (sql (delete0\<lparr>sql := 160 # codeUnits ''DELETE FROM users''\<rparr>)))) (codeUnits ''SELECT'')"
    by code_simp
  have p: "providerId delete0 \<noteq> []" "sql delete0 \<noteq> []"
    by (simp_all add: delete0_def codeUnits_def)
  have r1: "executeQuery happyEnv ''key'' delete0 idle
      = (failure ''Only SELECT queries are allowed'', idle)"
    using invalid_input_no_io [of delete0 happyEnv "''key''" idle] h p by simp
  have r2: "executeQuery happyEnv ''key'' (delete0\<lparr>sql := 160 # codeUnits ''DELETE FROM users''\<rparr>) idle
      = (failure ''Only SELECT queries are allowed'', idle)"
    using invalid_input_no_io [of "delete0\<lparr>sql := 160 # codeUnits ''DELETE FROM users''\<rparr>" happyEnv "''key''" idle]
      h' p by simp
  have r3: "executeQuery happyEnv ''key'' (delete0\<lparr>sql := []\<rparr>) idle
      = (failure ''sql is required'', idle)"
    using invalid_input_no_io [of "delete0\<lparr>sql := []\<rparr>" happyEnv "''key''" idle] p by simp
  have r4: "executeQuery happyEnv ''key'' (delete0\<lparr>providerId := []\<rparr>) idle
      = (failure ''providerId is required'', idle)"
    using invalid_input_no_io [of "delete0\<lparr>providerId := []\<rparr>" happyEnv "''key''" idle] by simp
  from h r1 r2 r3 r4 show ?thesis
    by (intro conjI)
qed

text \<open>
  Claim C6 as stated fails at \<^verbatim>\<open>selected 1\<close>, which is no SELECT statement (its
  first word is SELECTED): validation lets it through, the wallet is connected and asked
  for its address, the gateway is called twice and the payment is signed.
\<close>

theorem select_prefix_counterexample:
  "firstWord (sql selected0) = codeUnits ''SELECTED''
   \<and> validateInput happyEnv selected0 = None
   \<and> gatewayCalls (trace (snd (executeQuery happyEnv ''key'' selected0 idle)))
       = [QueryDatabase \<lparr>publisherId = ''publisher-uuid'', agentWallet = agent0,
            req_sql = codeUnits ''selected 1''\<rparr> None,
          QueryDatabase \<lparr>publisherId = ''publisher-uuid'', agentWallet = agent0,
            req_sql = codeUnits ''selected 1''\<rparr> (Some payload0)]
   \<and> filter isWallet (trace (snd (executeQuery happyEnv ''key'' selected0 idle)))
       = [WalletConnect (Some ''key''), WalletIsConnected, WalletGetAddress]
   \<and> list_ex isSignTypedData (trace (snd (executeQuery happyEnv ''key'' selected0 idle)))"
  by code_simp

text \<open>
  Claim C7. For every execution in which the signer raises \<^verbatim>\<open>UserRejectedError\<close> at the
  sign step (line 287), \<^verbatim>\<open>executeQuery\<close> returns the error
  \<^verbatim>\<open>User rejected the payment request\<close>, and the only call of \<^verbatim>\<open>queryDatabase\<close> it made
  is the initial one: there is no retry.
\<close>

theorem user_rejection_no_retry:
  assumes "validateInput E params = None"
      and "initialRequest E k params s = (Inr (request, initialResult), s1)"
      and "status initialResult = 402"
      and "paymentRequired initialResult = Some required"
      and "accepts required = m # ms"
      and "prepareTypedData E m (agentWallet request) s1 = (Inr (message, typedData), s2)"
      and "signTypedData E (trace s2) (td_domain typedData) (td_message typedData)
             = Inl (UserRejectedError reason)"
  shows "fst (executeQuery E k params s) = failure ''User rejected the payment request''
         \<and> gatewayCalls (trace (snd (executeQuery E k params s)))
             = gatewayCalls (trace s) @ [QueryDatabase request None]"
proof -
  let ?s3 = "s2\<lparr>trace := trace s2 @ [SignTypedData (td_domain typedData) (td_message typedData)]\<rparr>"
  have "buildPaymentPayload E m (agentWallet request) s1 = (Inl (UserRejectedError reason), ?s3)"
    using assms(6,7) by (simp add: buildPaymentPayload_def bind_def call_def)
  then have "payAndRetry E request m s1 = (Inl (UserRejectedError reason), ?s3)"
    by (simp add: payAndRetry_def bind_def)
  then have res: "executeQuery E k params s = (failure ''User rejected the payment request'', ?s3)"
    using executeQuery_after [OF assms(1,2)] afterInitial_pay [OF assms(3-5)] by simp
  from initialRequest_returns [OF assms(2)]
  have g1: "gatewayCalls (trace s1) = gatewayCalls (trace s) @ [QueryDatabase request None]"
    by (auto simp: gatewayCalls_append gatewayCalls_wallet) (simp add: gatewayCalls_def)
  from prepareTypedData_trace [OF assms(6)]
  have g2: "gatewayCalls (trace s2) = gatewayCalls (trace s1)"
    by (auto simp: gatewayCalls_append gatewayCalls_signing isSigning_def list_all_iff)
  have "gatewayCalls (trace ?s3) = gatewayCalls (trace s2)"
    by (simp add: gatewayCalls_def)
  with res g1 g2 show ?thesis by simp
qed

text \<open>
  Claim C7 with a wallet that declines every signature.
\<close>

theorem user_rejection_no_retry_witness:
  "signTypedData rejectingEnv [] domain0 message0 = Inl (UserRejectedError ''declined'')
   \<and> fst (executeQuery rejectingEnv ''key'' params0 idle)
       = failure ''User rejected the payment request''
   \<and> gatewayCalls (trace (snd (executeQuery rejectingEnv ''key'' params0 idle)))
       = [QueryDatabase request0 None]"
proof -
  let ?prepared = "snd (prepareTypedData rejectingEnv requirement0 (agentWallet request0) asked0)"
  have h1: "validateInput rejectingEnv params0 = None"
    by code_simp
  have h2: "initialRequest rejectingEnv ''key'' params0 idle
              = (Inr (request0, challenge [requirement0]), asked0)"
    by code_simp
  have h3: "status (challenge [requirement0]) = 402"
    by (simp add: challenge_def)
  have h4: "paymentRequired (challenge [requirement0])
              = Some \<lparr>pr_x402Version = 1, accepts = [requirement0]\<rparr>"
    by (simp add: challenge_def)
  have h5: "accepts \<lparr>pr_x402Version = 1, accepts = [requirement0]\<rparr> = requirement0 # []"
    by simp
  have h6: "prepareTypedData rejectingEnv requirement0 (agentWallet request0) asked0
              = (Inr (message0, typedData0), ?prepared)"
    by code_simp
  have h7: "\<And>h. signTypedData rejectingEnv h (td_domain typedData0) (td_message typedData0)
              = Inl (UserRejectedError ''declined'')"
    by (simp add: rejectingEnv_def mockEnv_def)
  have h8: "signTypedData rejectingEnv [] domain0 message0 = Inl (UserRejectedError ''declined'')"
    by (simp add: rejectingEnv_def mockEnv_def)
  from user_rejection_no_retry [OF h1 h2 h3 h4 h5 h6 h7] h8 show ?thesis
    by (simp add: idle_def gatewayCalls_def)
qed

text \<open>
  Claim C8 says that for every payment requirement the wire payload carries
  \<open>value\<close>, \<open>validAfter\<close> and \<open>validBefore\<close> as decimal strings. The value is
  the string of the requirement, whatever it is, and the two bounds are written with
  \<^verbatim>\<open>toString\<close>, which writes a large number with an exponent. Claim C8 as amended: for
  every payment requirement, the payload that \<^verbatim>\<open>buildPaymentPayload\<close> returns has
  \<^verbatim>\<open>x402Version\<close> 1, the scheme and the network of the requirement, and an authorization
  whose \<open>from\<close> is the payer, whose \<open>to\<close> is \<^verbatim>\<open>payTo\<close>, whose \<open>value\<close> is the
  string \<^verbatim>\<open>maxAmountRequired\<close> itself (it passes through no number), whose
  \<open>validAfter\<close> and \<open>validBefore\<close> are the texts that \<^verbatim>\<open>toString\<close> gives of the
  two bounds handed to \<^verbatim>\<open>buildAuthorizationMessage\<close>, whose nonce is the one of the
  message built, and whose signature is what the signer answered on the typed data
  built. \<open>validAfter\<close> is a decimal string that denotes \<open>now - 60\<close>; when
  \<^verbatim>\<open>maxTimeoutSeconds\<close> is an integer \<open>t\<close> with \<open>now + t\<close> of magnitude at most
  \<open>2^53\<close>, \<open>validBefore\<close> is a decimal string that denotes \<open>now + t\<close>.
\<close>

theorem wire_payload_fields:
  assumes "buildPaymentPayload E requirement fromAddress s = (Inr p, s')"
  shows "x402Version p = 1
       \<and> pp_scheme p = scheme requirement
       \<and> pp_network p = network requirement
       \<and> auth_from (authorization (payload p)) = fromAddress
       \<and> auth_to (authorization (payload p)) = payTo requirement
       \<and> auth_value (authorization (payload p)) = maxAmountRequired requirement
       \<and> auth_validAfter (authorization (payload p))
           = toString E (aa_validAfter (authorizationArgs E requirement fromAddress))
       \<and> auth_validBefore (authorization (payload p))
           = toString E (aa_validBefore (authorizationArgs E requirement fromAddress))
       \<and> (\<bar>dateNow E\<bar> \<le> 8640000000000000 \<longrightarrow>
             is_decimal (auth_validAfter (authorization (payload p)))
             \<and> decimal_value (auth_validAfter (authorization (payload p))) = currentSeconds E - 60)
       \<and> (\<forall>t. maxTimeoutSeconds requirement = Integer t
               \<and> \<bar>dateNow E\<bar> \<le> 8640000000000000
               \<and> \<bar>currentSeconds E + t\<bar> \<le> 9007199254740992 \<longrightarrow>
             is_decimal (auth_validBefore (authorization (payload p)))
             \<and> decimal_value (auth_validBefore (authorization (payload p))) = currentSeconds E + t)
       \<and> (\<exists>d m (td :: typed_data). trace s' = trace s @
             [BuildDomain (domainArgs requirement),
              BuildAuthorizationMessage (authorizationArgs E requirement fromAddress),
              BuildTypedData d m, SignTypedData (td_domain td) (td_message td)]
           \<and> buildAuthorizationMessage E (trace s @ [BuildDomain (domainArgs requirement)])
                (authorizationArgs E requirement fromAddress) = Inr m
           \<and> auth_nonce (authorization (payload p)) = nonce m
           \<and> signTypedData E (trace s @
                [BuildDomain (domainArgs requirement),
                 BuildAuthorizationMessage (authorizationArgs E requirement fromAddress),
                 BuildTypedData d m]) (td_domain td) (td_message td)
               = Inr (signature (payload p)))"
proof -
  let ?args = "authorizationArgs E requirement fromAddress"
  from buildPaymentPayload_trace_exact [OF assms] obtain d m and td :: typed_data and sg where
    tr: "trace s' = trace s @
           [BuildDomain (domainArgs requirement), BuildAuthorizationMessage ?args,
            BuildTypedData d m, SignTypedData (td_domain td) (td_message td)]"
    and m: "buildAuthorizationMessage E (trace s @ [BuildDomain (domainArgs requirement)])
              ?args = Inr m"
    and sg: "signTypedData E (trace s @
              [BuildDomain (domainArgs requirement), BuildAuthorizationMessage ?args,
               BuildTypedData d m]) (td_domain td) (td_message td) = Inr sg"
    and p: "p = wirePayload E requirement fromAddress m sg"
    by blast
  have fields: "x402Version p = 1" "pp_scheme p = scheme requirement"
      "pp_network p = network requirement"
      "auth_from (authorization (payload p)) = fromAddress"
      "auth_to (authorization (payload p)) = payTo requirement"
      "auth_value (authorization (payload p)) = maxAmountRequired requirement"
    by (simp_all add: p wirePayload_def Let_def)
  have pinned: "auth_nonce (authorization (payload p)) = nonce m" "signature (payload p) = sg"
    by (simp_all add: p wirePayload_def Let_def)
  have va: "auth_validAfter (authorization (payload p)) = toString E (aa_validAfter ?args)"
    and vb: "auth_validBefore (authorization (payload p)) = toString E (aa_validBefore ?args)"
    using wirePayload_window [of E requirement fromAddress m sg] by (simp_all add: p)
  have after: "\<bar>dateNow E\<bar> \<le> 8640000000000000 \<longrightarrow>
             is_decimal (auth_validAfter (authorization (payload p)))
             \<and> decimal_value (auth_validAfter (authorization (payload p))) = currentSeconds E - 60"
  proof
    assume range: "\<bar>dateNow E\<bar> \<le> 8640000000000000"
    from currentSeconds_range [OF range] have small: "\<bar>currentSeconds E - 60\<bar> \<le> 9007199254740992"
      by linarith
    from validAfter_exact [OF range, of requirement fromAddress] va
    have "auth_validAfter (authorization (payload p)) = toString E (Integer (currentSeconds E - 60))"
      by simp
    with is_decimal_toString [OF small, of E] decimal_value_toString [OF small, of E]
    show "is_decimal (auth_validAfter (authorization (payload p)))
        \<and> decimal_value (auth_validAfter (authorization (payload p))) = currentSeconds E - 60"
      by simp
  qed
  have before: "\<forall>t. maxTimeoutSeconds requirement = Integer t
               \<and> \<bar>dateNow E\<bar> \<le> 8640000000000000
               \<and> \<bar>currentSeconds E + t\<bar> \<le> 9007199254740992 \<longrightarrow>
             is_decimal (auth_validBefore (authorization (payload p)))
             \<and> decimal_value (auth_validBefore (authorization (payload p))) = currentSeconds E + t"
  proof (intro allI impI, elim conjE)
    fix t
    assume t: "maxTimeoutSeconds requirement = Integer t"
      and small: "\<bar>currentSeconds E + t\<bar> \<le> 9007199254740992"
    from validBefore_exact [OF t small, of fromAddress] vb
    have "auth_validBefore (authorization (payload p)) = toString E (Integer (currentSeconds E + t))"
      by simp
    with is_decimal_toString [OF small, of E] decimal_value_toString [OF small, of E]
    show "is_decimal (auth_validBefore (authorization (payload p)))
        \<and> decimal_value (auth_validBefore (authorization (payload p))) = currentSeconds E + t"
      by simp
  qed
  have signed: "signTypedData E (trace s @
                [BuildDomain (domainArgs requirement), BuildAuthorizationMessage ?args,
                 BuildTypedData d m]) (td_domain td) (td_message td)
               = Inr (signature (payload p))"
    unfolding pinned by (rule sg)
  from tr m pinned(1) signed
  have calls: "\<exists>d m (td :: typed_data). trace s' = trace s @
             [BuildDomain (domainArgs requirement), BuildAuthorizationMessage ?args,
              BuildTypedData d m, SignTypedData (td_domain td) (td_message td)]
           \<and> buildAuthorizationMessage E (trace s @ [BuildDomain (domainArgs requirement)])
                ?args = Inr m
           \<and> auth_nonce (authorization (payload p)) = nonce m
           \<and> signTypedData E (trace s @
                [BuildDomain (domainArgs requirement), BuildAuthorizationMessage ?args,
                 BuildTypedData d m]) (td_domain td) (td_message td)
               = Inr (signature (payload p))"
    by (intro exI conjI)
  from fields va vb after before calls show ?thesis
    by (intro conjI)
qed

text \<open>
  The amended claim at the requirement of the tests.
\<close>

theorem wire_payload_fields_witness:
  "fst (buildPaymentPayload happyEnv requirement0 agent0 idle) = Inr payload0
   \<and> auth_value (authorization (payload payload0)) = maxAmountRequired requirement0
   \<and> auth_validAfter (authorization (payload payload0)) = ''1699999940''
   \<and> auth_validBefore (authorization (payload payload0)) = ''1700000300''
   \<and> is_decimal (auth_validAfter (authorization (payload payload0)))
   \<and> is_decimal (auth_validBefore (authorization (payload payload0)))
   \<and> decimal_value (auth_validAfter (authorization (payload payload0))) = 1700000000 - 60
   \<and> decimal_value (auth_validBefore (authorization (payload payload0))) = 1700000000 + 300"
proof -
  have h: "buildPaymentPayload happyEnv requirement0 agent0 idle
             = (Inr payload0, snd (buildPaymentPayload happyEnv requirement0 agent0 idle))"
    by code_simp
  have built: "fst (buildPaymentPayload happyEnv requirement0 agent0 idle) = Inr payload0"
    by (subst h) simp
  have after: "toString happyEnv (aa_validAfter (authorizationArgs happyEnv requirement0 agent0))
      = ''1699999940''"
    by code_simp
  have before: "toString happyEnv (aa_validBefore (authorizationArgs happyEnv requirement0 agent0))
      = ''1700000300''"
    by code_simp
  have t: "maxTimeoutSeconds requirement0 = Integer 300"
    by (simp add: requirement0_def)
  have now: "currentSeconds happyEnv = 1700000000"
    by (simp add: currentSeconds_def happyEnv_def mockEnv_def)
  have range: "\<bar>dateNow happyEnv\<bar> \<le> 8640000000000000"
    by (simp add: happyEnv_def mockEnv_def)
  note c8 = wire_payload_fields [OF h]
  from c8 have "auth_value (authorization (payload payload0)) = maxAmountRequired requirement0"
    by (elim conjE)
  moreover from c8 after have "auth_validAfter (authorization (payload payload0)) = ''1699999940''"
    by simp
  moreover from c8 before have "auth_validBefore (authorization (payload payload0)) = ''1700000300''"
    by simp
  moreover from c8 range have "is_decimal (auth_validAfter (authorization (payload payload0)))
      \<and> decimal_value (auth_validAfter (authorization (payload payload0))) = 1700000000 - 60"
    unfolding now by (elim conjE) (erule impE, assumption+)
  moreover from c8 have "\<forall>t. maxTimeoutSeconds requirement0 = Integer t
               \<and> \<bar>dateNow happyEnv\<bar> \<le> 8640000000000000
               \<and> \<bar>currentSeconds happyEnv + t\<bar> \<le> 9007199254740992 \<longrightarrow>
             is_decimal (auth_validBefore (authorization (payload payload0)))
             \<and> decimal_value (auth_validBefore (authorization (payload payload0)))
                 = currentSeconds happyEnv + t"
    by (elim conjE)
  with t range now have "is_decimal (auth_validBefore (authorization (payload payload0)))
      \<and> decimal_value (auth_validBefore (authorization (payload payload0))) = 1700000000 + 300"
    by simp
  ultimately show ?thesis using built
    by (intro conjI) (erule conjunct1 conjunct2 | assumption)+
qed

text \<open>
  Claim C8 as stated fails at \<open>maxTimeoutSeconds = 10^21\<close>: the sum with
  \<open>now = 1700000000\<close> is the double \<open>1000000000001700003840\<close>, which
  \<^verbatim>\<open>toString\<close> writes \<^verbatim>\<open>1.0000000000017e+21\<close>, and that is no decimal string. It
  fails as well at a requirement whose \<^verbatim>\<open>maxAmountRequired\<close> is \<^verbatim>\<open>1e6\<close>: the value
  is that string.
\<close>

theorem exponent_notation_counterexample:
  "maxTimeoutSeconds requirement21 = Integer 1000000000000000000000
   \<and> aa_validBefore (authorizationArgs happyEnv requirement21 agent0)
       = Integer 1000000000001700003840
   \<and> fst (buildPaymentPayload happyEnv requirement21 agent0 idle)
       = Inr (payload0\<lparr>payload := (payload payload0)\<lparr>authorization :=
            (authorization (payload payload0))\<lparr>auth_validBefore := ''1.0000000000017e+21''\<rparr>\<rparr>\<rparr>)
   \<and> \<not> is_decimal ''1.0000000000017e+21''
   \<and> fst (buildPaymentPayload happyEnv (requirement0\<lparr>maxAmountRequired := ''1e6''\<rparr>) agent0 idle)
       = Inr (payload0\<lparr>payload := (payload payload0)\<lparr>authorization :=
            (authorization (payload payload0))\<lparr>auth_value := ''1e6''\<rparr>\<rparr>\<rparr>)
   \<and> \<not> is_decimal ''1e6''"
  by code_simp

text \<open>
  Claim C9 says that every initial response whose status is not payment-required is
  passed through as a success. Line 105 guards the success on the presence of
  \<^verbatim>\<open>data\<close>; without it the result is the error of line 115. Claim C9 as amended: for
  every initial response whose status is not 402, \<^verbatim>\<open>executeQuery\<close> makes no further
  request; when the response carries \<^verbatim>\<open>data\<close> it returns its rows, row count, costs and
  execution time as a success result, and when it carries none it returns the error
  \<^verbatim>\<open>Unexpected response from gateway\<close>.
\<close>

theorem unpaid_response_passthrough:
  assumes "validateInput E params = None"
      and "initialRequest E k params s = (Inr (request, initialResult), s1)"
      and "status initialResult \<noteq> 402"
  shows "executeQuery E k params s =
           ((case data initialResult of
               Some d \<Rightarrow> succeeded d None
             | None \<Rightarrow> failure ''Unexpected response from gateway''), s1)
         \<and> gatewayCalls (trace s1) = gatewayCalls (trace s) @ [QueryDatabase request None]"
proof -
  have "afterInitial E request initialResult s1 = (Inr (withoutPayment initialResult), s1)"
    using assms(3) by (simp add: afterInitial_def return_def)
  then have "executeQuery E k params s = (withoutPayment initialResult, s1)"
    using executeQuery_after [OF assms(1,2)] by simp
  moreover from initialRequest_returns [OF assms(2)]
  have "gatewayCalls (trace s1) = gatewayCalls (trace s) @ [QueryDatabase request None]"
    by (auto simp: gatewayCalls_append gatewayCalls_wallet) (simp add: gatewayCalls_def)
  ultimately show ?thesis by (simp add: withoutPayment_def)
qed

text \<open>
  The amended claim at a gateway that answers the initial request with status 200 and a
  result.
\<close>

theorem unpaid_response_passthrough_witness:
  "status (answer 200 (Some result0)) \<noteq> 402
   \<and> executeQuery freeEnv ''key'' params0 idle = (succeeded result0 None, asked0)
   \<and> gatewayCalls (trace asked0) = [QueryDatabase request0 None]"
proof -
  have h1: "validateInput freeEnv params0 = None"
    by code_simp
  have h2: "initialRequest freeEnv ''key'' params0 idle
              = (Inr (request0, answer 200 (Some result0)), asked0)"
    by code_simp
  have h3: "status (answer 200 (Some result0)) \<noteq> 402"
    by (simp add: answer_def)
  from unpaid_response_passthrough [OF h1 h2 h3] h3 show ?thesis
    by (simp add: idle_def answer_def gatewayCalls_def)
qed

text \<open>
  Claim C9 as stated fails at an initial response with status 200 and no \<^verbatim>\<open>data\<close>: the
  result is an error.
\<close>

theorem bodyless_response_counterexample:
  "status (answer 200 None) \<noteq> 402
   \<and> fst (executeQuery bodylessEnv ''key'' params0 idle)
       = failure ''Unexpected response from gateway''
   \<and> \<not> success (fst (executeQuery bodylessEnv ''key'' params0 idle))"
  by code_simp

text \<open>
  Claim C10. Validation accepts exactly the inputs with a non-empty \<^verbatim>\<open>providerId\<close>
  whose statement, trimmed and in upper case, begins with the six characters
  \<^verbatim>\<open>SELECT\<close>. In terms of the code units of the statement: white space (TAB, LF, VT, FF,
  CR, SPACE, U+00A0, U+1680, U+2000 to U+200A, U+2028, U+2029, U+202F, U+205F, U+3000,
  U+FEFF), then six letters of ASCII that read SELECT in upper or lower case, then
  anything, is accepted on every platform; and an accepted statement of ASCII is of that
  form. (Outside ASCII, what is accepted depends on the upper case that the platform
  gives.) An accepted input reaches the network: once the wallet has given its address,
  \<^verbatim>\<open>queryDatabase\<close> is called with the statement as it was passed in.
\<close>

theorem select_prefix_validation:
  "(validateInput E params = None \<longleftrightarrow>
      providerId params \<noteq> []
      \<and> startsWith (toUpperCase E (trim (sql params))) (codeUnits ''SELECT''))
   \<and> (providerId params \<noteq> []
        \<and> (\<exists>ws pre rest. sql params = ws @ pre @ rest
              \<and> (\<forall>c\<in>set ws. c \<in> {9, 10, 11, 12, 13, 32, 160, 5760, 8232, 8233, 8239, 8287,
                   12288, 65279} \<or> (8192 \<le> c \<and> c \<le> 8202))
              \<and> list_all2 (\<lambda>c u. c = u \<or> c = u + 32) pre [83, 69, 76, 69, 67, 84])
      \<longrightarrow> validateInput E params = None)
   \<and> (validateInput E params = None \<and> (\<forall>c\<in>set (sql params). 0 \<le> c \<and> c < 128)
      \<longrightarrow> (\<exists>ws pre rest. sql params = ws @ pre @ rest
              \<and> (\<forall>c\<in>set ws. c \<in> {9, 10, 11, 12, 13, 32, 160, 5760, 8232, 8233, 8239, 8287,
                   12288, 65279} \<or> (8192 \<le> c \<and> c \<le> 8202))
              \<and> list_all2 (\<lambda>c u. c = u \<or> c = u + 32) pre [83, 69, 76, 69, 67, 84]))
   \<and> (validateInput E params = None \<and> connectedAddress E k s = (Inr address, s1) \<longrightarrow>
        (\<exists>evs. trace (snd (executeQuery E k params s)) =
           trace s1 @ QueryDatabase
             \<lparr>publisherId = providerId params, agentWallet = address, req_sql = sql params\<rparr> None # evs))"
proof -
  have a: "validateInput E params = None \<longleftrightarrow>
      providerId params \<noteq> []
      \<and> startsWith (toUpperCase E (trim (sql params))) (codeUnits ''SELECT'')"
    by (rule validateInput_None_iff)
  have d: "validateInput E params = None \<and> connectedAddress E k s = (Inr address, s1) \<longrightarrow>
        (\<exists>evs. trace (snd (executeQuery E k params s)) =
           trace s1 @ QueryDatabase
             \<lparr>publisherId = providerId params, agentWallet = address, req_sql = sql params\<rparr> None # evs)"
    using executeQuery_reaches_gateway [of E params k s address s1] by blast
  from a accepted_iff_reads_units [of params E] d show ?thesis
    by (intro conjI) (erule conjunct1 conjunct2 | assumption)+
qed

text \<open>
  Claim C10 at \<^verbatim>\<open>selected 1\<close>, \<^verbatim>\<open>SELECTx\<close> and \<^verbatim>\<open>SELECT 1; DROP TABLE t\<close>, and
  at \<^verbatim>\<open>sElEcT 1\<close> between a no-break space, a TAB and a byte order mark on one side and
  a line feed and a line separator on the other, which are accepted, as is a statement
  that begins with the long s (U+017F) on a platform that gives it the upper case S; at
  \<^verbatim>\<open>DELETE FROM users\<close> and \<^verbatim>\<open>xSELECT 1\<close>, which are not.
\<close>

theorem select_prefix_validation_witness:
  "validateInput happyEnv selected0 = None
   \<and> validateInput happyEnv (selected0\<lparr>sql := codeUnits ''SELECTx''\<rparr>) = None
   \<and> validateInput happyEnv (selected0\<lparr>sql := codeUnits ''SELECT 1; DROP TABLE t''\<rparr>) = None
   \<and> validateInput happyEnv padded0 = None
   \<and> validateInput unicodeEnv longS0 = None
   \<and> validateInput happyEnv delete0 \<noteq> None
   \<and> validateInput happyEnv (selected0\<lparr>sql := codeUnits ''xSELECT 1''\<rparr>) \<noteq> None
   \<and> (\<exists>evs. trace (snd (executeQuery happyEnv ''key'' selected0 idle)) =
         trace walletReady0 @ QueryDatabase
           \<lparr>publisherId = ''publisher-uuid'', agentWallet = agent0,
            req_sql = codeUnits ''selected 1''\<rparr> None # evs)"
proof -
  let ?x = "selected0\<lparr>sql := codeUnits ''SELECTx''\<rparr>"
  let ?drop = "selected0\<lparr>sql := codeUnits ''SELECT 1; DROP TABLE t''\<rparr>"
  let ?inner = "selected0\<lparr>sql := codeUnits ''xSELECT 1''\<rparr>"
  have p1: "providerId selected0 \<noteq> []
      \<and> startsWith (toUpperCase happyEnv (trim (sql selected0))) (codeUnits ''SELECT'')"
    by code_simp
  have p2: "providerId ?x \<noteq> []
      \<and> startsWith (toUpperCase happyEnv (trim (sql ?x))) (codeUnits ''SELECT'')"
    by code_simp
  have p3: "providerId ?drop \<noteq> []
      \<and> startsWith (toUpperCase happyEnv (trim (sql ?drop))) (codeUnits ''SELECT'')"
    by code_simp
  have p4: "\<not> startsWith (toUpperCase happyEnv (trim (sql delete0))) (codeUnits ''SELECT'')"
    by code_simp
  have p5: "\<not> startsWith (toUpperCase happyEnv (trim (sql ?inner))) (codeUnits ''SELECT'')"
    by code_simp
  have p7: "providerId longS0 \<noteq> []
      \<and> startsWith (toUpperCase unicodeEnv (trim (sql longS0))) (codeUnits ''SELECT'')"
    by code_simp
  have pad: "sql padded0 = [160, 9, 65279] @ [115, 69, 108, 69, 99, 84] @ [32, 49, 10, 8232]"
    by code_simp
  have ws: "\<forall>c\<in>set [160, 9, 65279 :: int].
      c \<in> {9, 10, 11, 12, 13, 32, 160, 5760, 8232, 8233, 8239, 8287, 12288, 65279}
      \<or> (8192 \<le> c \<and> c \<le> 8202)"
    by simp
  have pre: "list_all2 (\<lambda>c u. c = u \<or> c = u + 32) [115, 69, 108, 69, 99, 84 :: int]
      [83, 69, 76, 69, 67, 84]"
    by simp
  have p6: "providerId padded0 \<noteq> []"
    by (simp add: padded0_def)
  have w: "connectedAddress happyEnv ''key'' idle = (Inr agent0, walletReady0)"
    by code_simp
  have f: "providerId selected0 = ''publisher-uuid''" "sql selected0 = codeUnits ''selected 1''"
    by (simp_all add: selected0_def)
  note t1 = select_prefix_validation [of happyEnv selected0 "''key''" idle agent0 walletReady0]
  note t2 = select_prefix_validation [of happyEnv ?x "''key''" idle agent0 walletReady0]
  note t3 = select_prefix_validation [of happyEnv ?drop "''key''" idle agent0 walletReady0]
  note t4 = select_prefix_validation [of happyEnv delete0 "''key''" idle agent0 walletReady0]
  note t5 = select_prefix_validation [of happyEnv ?inner "''key''" idle agent0 walletReady0]
  note t6 = select_prefix_validation [of happyEnv padded0 "''key''" idle agent0 walletReady0]
  note t7 = select_prefix_validation [of unicodeEnv longS0 "''key''" idle agent0 walletReady0]
  from t1 p1 have v1: "validateInput happyEnv selected0 = None" by blast
  from t2 p2 have v2: "validateInput happyEnv ?x = None" by blast
  from t3 p3 have v3: "validateInput happyEnv ?drop = None" by blast
  from t4 p4 have v4: "validateInput happyEnv delete0 \<noteq> None" by blast
  from t7 p7 have v8: "validateInput unicodeEnv longS0 = None" by blast
  from t5 p5 have v5: "validateInput happyEnv ?inner \<noteq> None" by blast
  from pad ws pre have "\<exists>ws pre rest. sql padded0 = ws @ pre @ rest
      \<and> (\<forall>c\<in>set ws. c \<in> {9, 10, 11, 12, 13, 32, 160, 5760, 8232, 8233, 8239, 8287,
                   12288, 65279} \<or> (8192 \<le> c \<and> c \<le> 8202))
      \<and> list_all2 (\<lambda>c u. c = u \<or> c = u + 32) pre [83, 69, 76, 69, 67, 84]"
    by (intro exI conjI)
  with t6 [THEN conjunct2, THEN conjunct1] p6 have v6: "validateInput happyEnv padded0 = None"
    by (elim impE) (intro conjI)
  from t1 v1 w have "\<exists>evs. trace (snd (executeQuery happyEnv ''key'' selected0 idle)) =
         trace walletReady0 @ QueryDatabase
           \<lparr>publisherId = providerId selected0, agentWallet = agent0, req_sql = sql selected0\<rparr> None # evs"
    by blast
  then have v7: "\<exists>evs. trace (snd (executeQuery happyEnv ''key'' selected0 idle)) =
         trace walletReady0 @ QueryDatabase
           \<lparr>publisherId = ''publisher-uuid'', agentWallet = agent0,
            req_sql = codeUnits ''selected 1''\<rparr> None # evs"
    by (simp only: f)
  from v1 v2 v3 v6 v8 v4 v5 v7 show ?thesis
    by (intro conjI)
qed

end
